theory Spec2Isabelle
  imports Main "HOL-Library.AList"
begin

section \<open>The render context of \<^verbatim>\<open>RenderContext\<close> (second document of server.ts)\<close>

text \<open>
  The development embeds the class \<^verbatim>\<open>RenderContext\<close>: its fields, the operations of
  the API context it hands to user code, its rewrite logic and its \<^verbatim>\<open>render\<close> method.
  JavaScript objects that are shared by reference (requests, cookie jars, render
  results) live in explicit stores addressed by natural numbers; every \<^verbatim>\<open>throw\<close> is
  the \<open>Inl\<close> branch of a sum; calls to collaborators whose code is in other modules
  are recorded in a trace, so that "was invoked" is a statement about the trace.
\<close>

subsection \<open>JavaScript values and \<^verbatim>\<open>typeof\<close>\<close>

datatype jsval =
    JUndefined
  | JNull
  | JBool bool
  | JNum int
  | JBigInt int
  | JStr string
  | JSym string
  | JFun string
  | JArr "string list"
  | JObj "(string \<times> string) list"

text \<open>The operator \<^verbatim>\<open>typeof\<close> of ECMAScript: \<^verbatim>\<open>null\<close> and arrays are \<^verbatim>\<open>'object'\<close>.\<close>

fun js_typeof :: "jsval \<Rightarrow> string" where
  "js_typeof JUndefined = ''undefined''"
| "js_typeof JNull = ''object''"
| "js_typeof (JBool b) = ''boolean''"
| "js_typeof (JNum n) = ''number''"
| "js_typeof (JBigInt n) = ''bigint''"
| "js_typeof (JStr s) = ''string''"
| "js_typeof (JSym s) = ''symbol''"
| "js_typeof (JFun f) = ''function''"
| "js_typeof (JArr xs) = ''object''"
| "js_typeof (JObj fs) = ''object''"

text \<open>
  A value is an object, in the sense of the language, when it is not a primitive;
  \<^verbatim>\<open>null\<close> is a primitive, functions and arrays are objects.
\<close>

fun js_is_object :: "jsval \<Rightarrow> bool" where
  "js_is_object (JFun f) = True"
| "js_is_object (JArr xs) = True"
| "js_is_object (JObj fs) = True"
| "js_is_object v = False"

subsection \<open>Data\<close>

type_synonym params = "(string \<times> string) list"
type_synonym props = "(string \<times> jsval) list"

text \<open>A parsed \<^verbatim>\<open>URL\<close>: \<^verbatim>\<open>new URL(request.url)\<close> is the identity on this record.\<close>

record url =
  href :: string
  url_pathname :: string

text \<open>
  A \<^verbatim>\<open>Request\<close>. \<open>body = None\<close> is \<^verbatim>\<open>request.body === null\<close>; \<open>body_stream\<close> names
  the stream object behind a body that is not null, which two requests can share.
  The three \<open>Sym\<close> fields are the properties keyed by \<^verbatim>\<open>clientAddressSymbol\<close>,
  \<^verbatim>\<open>clientLocalsSymbol\<close> and \<^verbatim>\<open>responseSentSymbol\<close>.
\<close>

record request =
  req_url :: url
  req_method :: string
  body :: "string option"
  body_stream :: nat
  bodyUsed :: bool
  clientAddressSym :: "string option"
  clientLocalsSym :: "jsval option"
  responseSentSym :: bool

datatype route_type = Endpoint | Redirect | Page | Fallback

record route_data =
  rd_type :: route_type
  rd_route :: string

text \<open>\<^verbatim>\<open>RewritePayload = string | URL | Request\<close>.\<close>

datatype payload = PayloadString string | PayloadURL url | PayloadRequest request

text \<open>
  A \<^verbatim>\<open>Response\<close>: \<open>resp_cookies\<close> is the cookie jar put on the response object by
  \<^verbatim>\<open>attachCookiesToResponse\<close> (a reference into the jar store).
\<close>

record response =
  resp_status :: nat
  resp_statusText :: string
  resp_body :: "string option"
  resp_headers :: "(string \<times> string) list"
  resp_cookies :: "nat option"

datatype error =
    LocalsNotAnObject
  | RewriteWithBodyUsed
  | PrerenderClientAddressNotAvailable
  | ClientAddressNotAvailable string
  | StaticClientAddressNotAvailable
  | ResponseSentError
  | MiddlewareNoDataOrNextCalled
  | TypeError string
  | External string
  | Thrown string

text \<open>
  User code (a middleware, an endpoint handler, a page's frontmatter) is an input of
  the render context. It is modelled by the sequence of calls it makes on the
  context it is given; the response it returns is the last one it obtained.
\<close>

datatype api_call =
    Call_redirect string "nat option"
  | Call_respond response
  | Call_setCookie string string
  | Call_setLocals jsval
  | Call_readBody
  | Call_clientAddress
  | Call_currentLocale
  | Call_preferredLocale
  | Call_preferredLocaleList
  | Call_throw string

datatype action =
    Act_next "payload option"
  | Act_rewrite payload
  | Act api_call

text \<open>A handler chooses its calls from the URL of the context it is invoked with.\<close>

type_synonym handler = "url \<Rightarrow> action list"

record component =
  comp_default :: handler
  comp_partial :: bool

record i18n_config =
  defaultLocale :: string
  locales :: "string list"
  strategy :: string

text \<open>The \<^verbatim>\<open>SSRResult\<close> built by \<^verbatim>\<open>createResult\<close> (the fields taken from the context).\<close>

record ssr_result =
  cancelled :: bool
  res_cookies :: nat
  res_params :: params
  res_partial :: bool
  res_pathname :: string
  res_request :: nat
  res_status :: nat

text \<open>Calls to collaborators, in the order they happen.\<close>

datatype event =
    Ev_callMiddleware url
  | Ev_tryRewrite payload request route_data
  | Ev_getProps
  | Ev_renderEndpoint
  | Ev_renderRedirect
  | Ev_renderPage nat
  | Ev_computeCurrentLocale string
  | Ev_computePreferredLocale
  | Ev_computePreferredLocaleList

text \<open>
  What a render context only reads: the flags of its pipeline, its middleware, and
  the collaborators imported from other modules, taken as parameters. A collaborator
  that can throw returns \<open>Inl\<close> of a message.
\<close>

record env =
  serverLike :: bool
  adapterName :: "string option"
  i18n :: "i18n_config option"
  middleware :: handler
  tryRewrite :: "payload \<Rightarrow> request \<Rightarrow> route_data \<Rightarrow> string + (route_data \<times> component \<times> url)"
  getProps :: "component option \<Rightarrow> route_data \<Rightarrow> string \<Rightarrow> string + props"
  getParams :: "route_data \<Rightarrow> string \<Rightarrow> params"
  headElements :: "route_data \<Rightarrow> string option"
  renderRedirect :: "route_data \<Rightarrow> params \<Rightarrow> string + response"
  i18n_computeCurrentLocale :: "string \<Rightarrow> string list \<Rightarrow> string option"
  i18n_computePreferredLocale :: "request \<Rightarrow> string list \<Rightarrow> string option"
  i18n_computePreferredLocaleList :: "request \<Rightarrow> string list \<Rightarrow> string list option"

text \<open>
  The fields of a \<^verbatim>\<open>RenderContext\<close> (\<open>request\<close> and \<open>cookies\<close> are references),
  its three private locale fields, then the object stores and the trace.
\<close>

record state =
  locals :: jsval
  pathname :: string
  request :: nat
  routeData :: route_data
  status :: nat
  cookies :: nat
  params :: params
  url :: url
  props :: props
  originalRoute :: route_data
  isRewriting :: bool
  counter :: nat
  currentLocale_field :: "string option"
  preferredLocale_field :: "string option"
  preferredLocaleList_field :: "string list option"
  req_store :: "nat \<Rightarrow> request"
  req_next :: nat
  jar_store :: "nat \<Rightarrow> (string \<times> string) list"
  jar_next :: nat
  result_store :: "nat \<Rightarrow> ssr_result"
  result_next :: nat
  trace :: "event list"

text \<open>The object returned by \<^verbatim>\<open>createActionAPIContext\<close>: the fields it captures.\<close>

record api_context =
  ac_cookies :: nat
  ac_params :: params
  ac_request :: nat
  ac_url :: url
  ac_props :: props

text \<open>
  The variables of one call of \<^verbatim>\<open>render\<close> that its closure \<^verbatim>\<open>lastNext\<close> captures:
  \<^verbatim>\<open>componentInstance\<close> (reassigned by a rewrite payload), \<^verbatim>\<open>props\<close>, the jar that
  \<^verbatim>\<open>const { cookies } = this\<close> read on entry, and the API context.
\<close>

record frame =
  fr_component :: "component option"
  fr_props :: props
  fr_cookies :: nat
  fr_api :: api_context

text \<open>Which kind of user code is running: it decides what \<^verbatim>\<open>next\<close> and \<^verbatim>\<open>locals\<close> are.\<close>

datatype mode = InMiddleware | InEndpoint | InPage

definition emit :: "event \<Rightarrow> state \<Rightarrow> state" where
  "emit ev s = s\<lparr> trace := trace s @ [ev] \<rparr>"

subsection \<open>Construction\<close>

text \<open>
  \<^verbatim>\<open>RenderContext.create\<close> and the constructor: the jar is
  \<^verbatim>\<open>new AstroCookies(request)\<close>, \<open>params\<close> is \<^verbatim>\<open>getParams(routeData, pathname)\<close>,
  \<open>url\<close> is \<^verbatim>\<open>new URL(request.url)\<close>, and \<open>originalRoute\<close> is assigned from
  \<open>routeData\<close>.
\<close>

definition no_result :: ssr_result where
  "no_result = \<lparr> cancelled = False, res_cookies = 0, res_params = [], res_partial = False,
                  res_pathname = [], res_request = 0, res_status = 0 \<rparr>"

definition create :: "env \<Rightarrow> jsval \<Rightarrow> string \<Rightarrow> request \<Rightarrow> route_data \<Rightarrow> nat \<Rightarrow> props \<Rightarrow> state" where
  "create e lcls pname rq rd st prps =
     \<lparr> locals = lcls, pathname = pname, request = 0, routeData = rd, status = st,
       cookies = 0, params = getParams e rd pname, url = req_url rq, props = prps,
       originalRoute = rd, isRewriting = False, counter = 0,
       currentLocale_field = None, preferredLocale_field = None,
       preferredLocaleList_field = None,
       req_store = (\<lambda>_. rq), req_next = 1,
       jar_store = (\<lambda>_. []), jar_next = 1,
       result_store = (\<lambda>_. no_result), result_next = 0,
       trace = [] \<rparr>"

definition createActionAPIContext :: "state \<Rightarrow> api_context" where
  "createActionAPIContext s =
     \<lparr> ac_cookies = cookies s, ac_params = params s, ac_request = request s, ac_url = url s,
       ac_props = [] \<rparr>"

definition createAPIContext :: "props \<Rightarrow> state \<Rightarrow> api_context" where
  "createAPIContext prps s = (createActionAPIContext s)\<lparr> ac_props := prps \<rparr>"

text \<open>
  \<^verbatim>\<open>createAstroPagePartial\<close>: the page-level \<^verbatim>\<open>Astro\<close> global captures the same fields
  of the context, here at the time the page is rendered (the partial kept in
  \<^verbatim>\<open>#astroPagePartial\<close> between components of one page is not modelled).
\<close>

definition createAstroPagePartial :: "props \<Rightarrow> state \<Rightarrow> api_context" where
  "createAstroPagePartial prps s =
     \<lparr> ac_cookies = cookies s, ac_params = params s, ac_request = request s, ac_url = url s,
       ac_props = prps \<rparr>"

subsection \<open>The \<^verbatim>\<open>locals\<close> setter of the API context\<close>

text \<open>
  \<^verbatim>\<open>set locals(val)\<close>: throws when \<^verbatim>\<open>typeof val !== 'object'\<close>; otherwise assigns
  \<^verbatim>\<open>renderContext.locals\<close> and sets the symbol on the request the API context captured.
\<close>

definition set_locals :: "api_context \<Rightarrow> jsval \<Rightarrow> state \<Rightarrow> (error + unit) \<times> state" where
  "set_locals api val s =
     (if js_typeof val \<noteq> ''object'' then (Inl LocalsNotAnObject, s)
      else (Inr (),
            s\<lparr> locals := val,
               req_store := (req_store s)
                 (ac_request api := (req_store s (ac_request api))\<lparr> clientLocalsSym := Some val \<rparr>) \<rparr>))"

subsection \<open>\<^verbatim>\<open>clientAddress\<close>\<close>

text \<open>\<^verbatim>\<open>if (pipeline.adapterName)\<close> is a truthiness test: the empty string fails it.\<close>

definition clientAddress :: "env \<Rightarrow> state \<Rightarrow> error + string" where
  "clientAddress e s =
     (let rq = req_store s (request s) in
      case clientAddressSym rq of
        Some a \<Rightarrow> Inr a
      | None \<Rightarrow>
          if serverLike e then
            (if body rq = None then Inl PrerenderClientAddressNotAvailable
             else
               (case adapterName e of
                  Some nm \<Rightarrow>
                    if nm \<noteq> [] then Inl (ClientAddressNotAvailable nm)
                    else Inl StaticClientAddressNotAvailable
                | None \<Rightarrow> Inl StaticClientAddressNotAvailable))
          else Inl StaticClientAddressNotAvailable)"

subsection \<open>The three locale computations\<close>

text \<open>
  \<^verbatim>\<open>this.#f ??= e\<close> evaluates \<^verbatim>\<open>e\<close> and assigns only when the field is
  \<^verbatim>\<open>undefined\<close> (here \<open>None\<close>); \<^verbatim>\<open>a ?? b\<close> evaluates \<^verbatim>\<open>b\<close> only when \<^verbatim>\<open>a\<close> is.
\<close>

definition fallbackTo :: "i18n_config \<Rightarrow> string option" where
  "fallbackTo cfg =
     (if strategy cfg = ''pathname-prefix-other-locales''
         \<or> strategy cfg = ''domains-prefix-other-locales''
      then Some (defaultLocale cfg) else None)"

definition computeCurrentLocale :: "env \<Rightarrow> state \<Rightarrow> string option \<times> state" where
  "computeCurrentLocale e s =
     (case i18n e of
        None \<Rightarrow> (None, s)
      | Some cfg \<Rightarrow>
          (case currentLocale_field s of
             Some v \<Rightarrow> (Some v, s)
           | None \<Rightarrow>
               (let s1 = emit (Ev_computeCurrentLocale (rd_route (routeData s))) s in
                case i18n_computeCurrentLocale e (rd_route (routeData s)) (locales cfg) of
                  Some v \<Rightarrow> (Some v, s1\<lparr> currentLocale_field := Some v \<rparr>)
                | None \<Rightarrow>
                    (let s2 = emit (Ev_computeCurrentLocale (url_pathname (url s))) s1 in
                     case i18n_computeCurrentLocale e (url_pathname (url s)) (locales cfg) of
                       Some v \<Rightarrow> (Some v, s2\<lparr> currentLocale_field := Some v \<rparr>)
                     | None \<Rightarrow>
                         (fallbackTo cfg, s2\<lparr> currentLocale_field := fallbackTo cfg \<rparr>)))))"

definition computePreferredLocale :: "env \<Rightarrow> state \<Rightarrow> string option \<times> state" where
  "computePreferredLocale e s =
     (case i18n e of
        None \<Rightarrow> (None, s)
      | Some cfg \<Rightarrow>
          (case preferredLocale_field s of
             Some v \<Rightarrow> (Some v, s)
           | None \<Rightarrow>
               (let v = i18n_computePreferredLocale e (req_store s (request s)) (locales cfg)
                in (v, (emit Ev_computePreferredLocale s)\<lparr> preferredLocale_field := v \<rparr>))))"

definition computePreferredLocaleList :: "env \<Rightarrow> state \<Rightarrow> string list option \<times> state" where
  "computePreferredLocaleList e s =
     (case i18n e of
        None \<Rightarrow> (None, s)
      | Some cfg \<Rightarrow>
          (case preferredLocaleList_field s of
             Some v \<Rightarrow> (Some v, s)
           | None \<Rightarrow>
               (let v = i18n_computePreferredLocaleList e (req_store s (request s)) (locales cfg)
                in (v, (emit Ev_computePreferredLocaleList s)\<lparr> preferredLocaleList_field := v \<rparr>))))"




subsection \<open>\<^verbatim>\<open>#copyRequest\<close>\<close>

text \<open>
  The new \<^verbatim>\<open>Request\<close> takes the listed options of the old one, among them
  \<^verbatim>\<open>body: oldRequest.body\<close>, the same stream; properties keyed by symbols are not
  among them.
\<close>

definition copyRequest :: "url \<Rightarrow> request \<Rightarrow> error + request" where
  "copyRequest newUrl oldRequest =
     (if bodyUsed oldRequest then Inl RewriteWithBodyUsed
      else Inr \<lparr> req_url = newUrl, req_method = req_method oldRequest, body = body oldRequest,
                 body_stream = body_stream oldRequest,
                 bodyUsed = False, clientAddressSym = None, clientLocalsSym = None,
                 responseSentSym = False \<rparr>)"

subsection \<open>Cookie jars and the headers of a response\<close>

text \<open>
  Modelled from the spec: the module \<^verbatim>\<open>cookies\<close> (\<^verbatim>\<open>AstroCookies\<close>,
  \<^verbatim>\<open>attachCookiesToResponse\<close>, \<^verbatim>\<open>getCookiesFromResponse\<close>) is not in this file. A jar
  is the ordered collection of the cookies set on it, one entry per name, the last
  write winning; merging writes every entry of the other jar into this one; attaching
  puts the jar on the response object, where \<^verbatim>\<open>getCookiesFromResponse\<close> finds it.
\<close>

type_synonym jar = "(string \<times> string) list"

definition cookies_set :: "string \<Rightarrow> string \<Rightarrow> jar \<Rightarrow> jar" where
  "cookies_set k v j = AList.update k v j"

definition cookies_merge :: "jar \<Rightarrow> jar \<Rightarrow> jar" where
  "cookies_merge this other = fold (\<lambda>(k, v). cookies_set k v) other this"

definition attachCookiesToResponse :: "response \<Rightarrow> nat \<Rightarrow> response" where
  "attachCookiesToResponse r j = r\<lparr> resp_cookies := Some j \<rparr>"

definition getCookiesFromResponse :: "response \<Rightarrow> nat option" where
  "getCookiesFromResponse r = resp_cookies r"

text \<open>The cookies a response carries when it leaves: the content of the jar put on it.\<close>

definition set_cookie_headers :: "state \<Rightarrow> response \<Rightarrow> jar" where
  "set_cookie_headers s r = (case resp_cookies r of None \<Rightarrow> [] | Some j \<Rightarrow> jar_store s j)"

text \<open>
  Modelled from the spec: the names of the internal headers are in \<^verbatim>\<open>constants.js\<close>,
  which is not in this file; they are kept as four distinct symbolic strings.
\<close>

definition ROUTE_TYPE_HEADER :: string where
  "ROUTE_TYPE_HEADER = ''ROUTE_TYPE_HEADER''"

definition REROUTE_DIRECTIVE_HEADER :: string where
  "REROUTE_DIRECTIVE_HEADER = ''REROUTE_DIRECTIVE_HEADER''"

definition REWRITE_DIRECTIVE_HEADER_KEY :: string where
  "REWRITE_DIRECTIVE_HEADER_KEY = ''REWRITE_DIRECTIVE_HEADER_KEY''"

definition REWRITE_DIRECTIVE_HEADER_VALUE :: string where
  "REWRITE_DIRECTIVE_HEADER_VALUE = ''REWRITE_DIRECTIVE_HEADER_VALUE''"

definition headers_set :: "string \<Rightarrow> string \<Rightarrow> response \<Rightarrow> response" where
  "headers_set k v r = r\<lparr> resp_headers := AList.update k v (resp_headers r) \<rparr>"

definition headers_get :: "string \<Rightarrow> response \<Rightarrow> string option" where
  "headers_get k r = map_of (resp_headers r) k"

definition headers_delete :: "string \<Rightarrow> response \<Rightarrow> response" where
  "headers_delete k r = r\<lparr> resp_headers := AList.delete k (resp_headers r) \<rparr>"

subsection \<open>The fixed responses\<close>

text \<open>
  \<^verbatim>\<open>new Response('Loop Detected', ...)\<close>: a body given as a string brings the header
  \<^verbatim>\<open>content-type: text/plain;charset=UTF-8\<close> with it.
\<close>

definition loop_detected :: response where
  "loop_detected =
     \<lparr> resp_status = 508,
       resp_statusText = ''Astro detected a loop where you tried to call the rewriting logic more than four times.'',
       resp_body = Some ''Loop Detected'',
       resp_headers = [(''content-type'', ''text/plain;charset=UTF-8'')],
       resp_cookies = None \<rparr>"

definition fallback_response :: response where
  "fallback_response =
     \<lparr> resp_status = 500, resp_statusText = [], resp_body = None,
       resp_headers = [(ROUTE_TYPE_HEADER, ''fallback'')], resp_cookies = None \<rparr>"

text \<open>
  The helper \<^verbatim>\<open>redirect\<close> of both contexts. \<^verbatim>\<open>new Response\<close> refuses a status outside
  200..599 with a \<^verbatim>\<open>RangeError\<close>.
\<close>

definition redirect :: "string \<Rightarrow> nat option \<Rightarrow> error + response" where
  "redirect path st =
     (let code = (case st of None \<Rightarrow> 302 | Some c \<Rightarrow> c) in
      if code < 200 \<or> 599 < code then Inl (TypeError ''RangeError'')
      else Inr \<lparr> resp_status = code, resp_statusText = [], resp_body = None,
                 resp_headers = [(''Location'', path)], resp_cookies = None \<rparr>)"

subsection \<open>\<^verbatim>\<open>createResult\<close>\<close>

text \<open>
  The result is a new object; the model stores it under a fresh reference and returns
  the reference. \<^verbatim>\<open>pipeline.headElements\<close> is awaited first and may throw;
  \<^verbatim>\<open>mod.partial\<close> throws a \<^verbatim>\<open>TypeError\<close> when the component is \<^verbatim>\<open>undefined\<close>.
\<close>

definition new_result :: "component \<Rightarrow> state \<Rightarrow> ssr_result" where
  "new_result md s =
     \<lparr> cancelled = False, res_cookies = cookies s, res_params = params s,
       res_partial = comp_partial md, res_pathname = pathname s, res_request = request s,
       res_status = status s \<rparr>"

definition createResult :: "env \<Rightarrow> component option \<Rightarrow> state \<Rightarrow> (error + nat) \<times> state" where
  "createResult e md s =
     (case headElements e (routeData s) of
        Some m \<Rightarrow> (Inl (External m), s)
      | None \<Rightarrow>
          (case md of
             None \<Rightarrow> (Inl (TypeError ''partial''), s)
           | Some c \<Rightarrow>
               (Inr (result_next s),
                s\<lparr> result_store := (result_store s)(result_next s := new_result c s),
                   result_next := Suc (result_next s) \<rparr>)))"

subsection \<open>The calls of user code that do not re-enter the context\<close>

text \<open>
  One call on the API context (or on the page's \<^verbatim>\<open>Astro\<close> global). The result is the
  response the call returned, if it returns one. In a page \<^verbatim>\<open>locals\<close> is a plain
  property of the global, so assigning it does not reach the context, and
  \<^verbatim>\<open>redirect\<close> first looks at \<^verbatim>\<open>responseSentSymbol\<close> on the context's request.
  Reading the body of a request fails when it was read before; otherwise, when the
  request has a body, it uses up the stream, and with it every stored request that
  has this stream as its body (the request and the copies \<^verbatim>\<open>#copyRequest\<close> made).
\<close>

definition api_step ::
  "env \<Rightarrow> mode \<Rightarrow> api_context \<Rightarrow> api_call \<Rightarrow> state \<Rightarrow> (error + response option) \<times> state" where
  "api_step e m api a s =
     (case a of
        Call_redirect path st \<Rightarrow>
          (if m = InPage \<and> responseSentSym (req_store s (request s)) then (Inl ResponseSentError, s)
           else (case redirect path st of Inl err \<Rightarrow> (Inl err, s) | Inr r \<Rightarrow> (Inr (Some r), s)))
      | Call_respond r \<Rightarrow> (Inr (Some (r\<lparr> resp_cookies := None \<rparr>)), s)
      | Call_setCookie k v \<Rightarrow>
          (Inr None,
           s\<lparr> jar_store := (jar_store s)
                (ac_cookies api := cookies_set k v (jar_store s (ac_cookies api))) \<rparr>)
      | Call_setLocals v \<Rightarrow>
          (if m = InPage then (Inr None, s)
           else (case set_locals api v s of
                   (Inl err, s') \<Rightarrow> (Inl err, s')
                 | (Inr u, s') \<Rightarrow> (Inr None, s')))
      | Call_readBody \<Rightarrow>
          (let rq = req_store s (ac_request api) in
           if bodyUsed rq then (Inl (TypeError ''Body is unusable''), s)
           else if body rq = None then (Inr None, s)
           else (Inr None,
                 s\<lparr> req_store :=
                      (\<lambda>i. if body (req_store s i) \<noteq> None
                              \<and> body_stream (req_store s i) = body_stream rq
                           then (req_store s i)\<lparr> bodyUsed := True \<rparr>
                           else req_store s i) \<rparr>))
      | Call_clientAddress \<Rightarrow>
          (case clientAddress e s of Inl err \<Rightarrow> (Inl err, s) | Inr addr \<Rightarrow> (Inr None, s))
      | Call_currentLocale \<Rightarrow> (Inr None, snd (computeCurrentLocale e s))
      | Call_preferredLocale \<Rightarrow> (Inr None, snd (computePreferredLocale e s))
      | Call_preferredLocaleList \<Rightarrow> (Inr None, snd (computePreferredLocaleList e s))
      | Call_throw msg \<Rightarrow> (Inl (Thrown msg), s))"

subsection \<open>The rewrite payload of \<^verbatim>\<open>lastNext\<close>\<close>

text \<open>\<^verbatim>\<open>if (payload)\<close> is a truthiness test: a missing payload and the empty string fail it.\<close>

definition payload_given :: "payload option \<Rightarrow> payload option" where
  "payload_given pl =
     (case pl of None \<Rightarrow> None | Some p \<Rightarrow> if p = PayloadString [] then None else Some p)"

text \<open>
  The block \<^verbatim>\<open>if (payload) { ... }\<close> of \<^verbatim>\<open>lastNext\<close>: the resolver is called with
  \<^verbatim>\<open>this.request\<close> and \<^verbatim>\<open>this.originalRoute\<close>, its error is let through, and on success
  four assignments are made, one of them to \<^verbatim>\<open>componentInstance\<close> of the frame.
\<close>

definition lastNext_rewrite ::
  "env \<Rightarrow> payload option \<Rightarrow> frame \<Rightarrow> state \<Rightarrow> (error + frame) \<times> state" where
  "lastNext_rewrite e pl fr s =
     (case payload_given pl of
        None \<Rightarrow> (Inr fr, s)
      | Some p \<Rightarrow>
          (let s0 = emit (Ev_tryRewrite p (req_store s (request s)) (originalRoute s)) s in
           case tryRewrite e p (req_store s (request s)) (originalRoute s) of
             Inl msg \<Rightarrow> (Inl (External msg), s0)
           | Inr (rd, component, newUrl) \<Rightarrow>
               (Inr (fr\<lparr> fr_component := Some component \<rparr>),
                s0\<lparr> routeData := rd, isRewriting := True, status := 200 \<rparr>)))"

subsection \<open>\<^verbatim>\<open>#executeRewrite\<close>, up to its final call of \<^verbatim>\<open>render\<close>\<close>

definition executeRewrite_state ::
  "env \<Rightarrow> payload \<Rightarrow> state \<Rightarrow> (error + component) \<times> state" where
  "executeRewrite_state e reroutePayload s =
     (let s0 = emit (Ev_tryRewrite reroutePayload (req_store s (request s)) (originalRoute s)) s in
      case tryRewrite e reroutePayload (req_store s (request s)) (originalRoute s) of
        Inl msg \<Rightarrow> (Inl (External msg), s0)
      | Inr (rd, component, newURL) \<Rightarrow>
          (let s1 = s0\<lparr> routeData := rd \<rparr> in
           case (case reroutePayload of
                   PayloadRequest r \<Rightarrow> Inr r
                 | PayloadString p \<Rightarrow> copyRequest newURL (req_store s1 (request s1))
                 | PayloadURL u \<Rightarrow> copyRequest newURL (req_store s1 (request s1))) of
             Inl err \<Rightarrow> (Inl err, s1)
           | Inr rq \<Rightarrow>
               (let s2 = s1\<lparr> request := req_next s1,
                             req_store := (req_store s1)(req_next s1 := rq),
                             req_next := Suc (req_next s1) \<rparr>;
                    s3 = s2\<lparr> url := req_url rq \<rparr>;
                    s4 = s3\<lparr> cookies := jar_next s3,
                             jar_store := (jar_store s3)(jar_next s3 := []),
                             jar_next := Suc (jar_next s3) \<rparr>;
                    s5 = s4\<lparr> params := getParams e rd (url_pathname (url s4)),
                             pathname := url_pathname (url s4),
                             isRewriting := True,
                             status := 200 \<rparr>
                in (Inr component, s5))))"

subsection \<open>The pieces of \<^verbatim>\<open>render\<close> and \<^verbatim>\<open>lastNext\<close> around the calls of user code\<close>

text \<open>
  \<^verbatim>\<open>Object.keys(this.props).length > 0 ? this.props : await getProps(...)\<close>.
\<close>

definition resolve_props :: "env \<Rightarrow> component option \<Rightarrow> state \<Rightarrow> (error + props) \<times> state" where
  "resolve_props e componentInstance s =
     (if props s \<noteq> [] then (Inr (props s), s)
      else (case getProps e componentInstance (routeData s) (pathname s) of
              Inl msg \<Rightarrow> (Inl (External msg), emit Ev_getProps s)
            | Inr p \<Rightarrow> (Inr p, emit Ev_getProps s)))"

text \<open>
  After the middleware: \<^verbatim>\<open>headers.get(ROUTE_TYPE_HEADER)\<close> is tested for truthiness,
  the header is deleted, and the jar read on entry is put on the response.
\<close>

definition render_finish :: "frame \<Rightarrow> response \<Rightarrow> response" where
  "render_finish fr response =
     attachCookiesToResponse
       (case headers_get ROUTE_TYPE_HEADER response of
          None \<Rightarrow> response
        | Some v \<Rightarrow> if v \<noteq> [] then headers_delete ROUTE_TYPE_HEADER response else response)
       (fr_cookies fr)"

text \<open>
  Modelled from the spec: \<^verbatim>\<open>renderPage\<close> is in another module. A page whose code
  returns no response of its own yields the rendered document, with the status of
  the result.
\<close>

definition rendered_document :: "ssr_result \<Rightarrow> response" where
  "rendered_document res =
     \<lparr> resp_status = res_status res, resp_statusText = ''OK'', resp_body = Some ''<html>'',
       resp_headers = [(''Content-Type'', ''text/html'')], resp_cookies = None \<rparr>"

text \<open>The three headers the page branch sets on the response.\<close>

definition page_headers :: "state \<Rightarrow> response \<Rightarrow> response" where
  "page_headers s response =
     (let r1 = headers_set ROUTE_TYPE_HEADER ''page'' response;
          r2 = (if rd_route (routeData s) = ''/404'' \<or> rd_route (routeData s) = ''/500''
                then headers_set REROUTE_DIRECTIVE_HEADER ''no'' r1 else r1)
      in if isRewriting s
         then headers_set REWRITE_DIRECTIVE_HEADER_KEY REWRITE_DIRECTIVE_HEADER_VALUE r2
         else r2)"

text \<open>
  The end of \<^verbatim>\<open>lastNext\<close>: the jar found on the response is merged into the jar the
  enclosing call of \<^verbatim>\<open>render\<close> read on entry.
\<close>

definition merge_response_cookies :: "frame \<Rightarrow> response \<Rightarrow> state \<Rightarrow> state" where
  "merge_response_cookies fr response s =
     (case getCookiesFromResponse response of
        None \<Rightarrow> s
      | Some responseCookies \<Rightarrow>
          s\<lparr> jar_store := (jar_store s)
               (fr_cookies fr :=
                  cookies_merge (jar_store s (fr_cookies fr)) (jar_store s responseCookies)) \<rparr>)"

subsection \<open>\<^verbatim>\<open>render\<close>, the middleware, \<^verbatim>\<open>lastNext\<close> and \<^verbatim>\<open>#executeRewrite\<close>\<close>

text \<open>
  The start of \<^verbatim>\<open>render\<close>, up to the call of the middleware: either the call is
  over (\<open>Inl\<close>: \<^verbatim>\<open>getProps\<close> threw, or the counter reached 4), or the middleware is to
  be run in the frame returned.
\<close>

definition render_enter ::
  "env \<Rightarrow> component option \<Rightarrow> state \<Rightarrow> ((error + response) + frame) \<times> state" where
  "render_enter e componentInstance s =
     (case resolve_props e componentInstance s of
        (Inl err, s0) \<Rightarrow> (Inl (Inl err), s0)
      | (Inr prps, s0) \<Rightarrow>
          (let apiContext = createAPIContext prps s0;
               fr = \<lparr> fr_component = componentInstance, fr_props = prps,
                      fr_cookies = cookies s0, fr_api = apiContext \<rparr>;
               s1 = s0\<lparr> counter := counter s0 + 1 \<rparr>
           in if counter s1 = 4 then (Inl (Inr loop_detected), s1)
              else (Inr fr, s1)))"

text \<open>
  Modelled from the spec: \<^verbatim>\<open>callMiddleware\<close> is in another module. A middleware that
  ends without a response makes it throw.
\<close>

definition render_leave ::
  "frame \<Rightarrow> (error + response option) \<times> frame \<times> state \<Rightarrow> (error + response) \<times> state" where
  "render_leave fr out =
     (case out of
        (Inl err, fr', s2) \<Rightarrow> (Inl err, s2)
      | (Inr None, fr', s2) \<Rightarrow> (Inl MiddlewareNoDataOrNextCalled, s2)
      | (Inr (Some response), fr', s2) \<Rightarrow> (Inr (render_finish fr response), s2))"

text \<open>
  Modelled from the spec: \<^verbatim>\<open>renderEndpoint\<close> is in another module. It runs the handler
  of the component with the API context; no component, or no response, is an error.
\<close>

definition endpoint_leave ::
  "frame \<Rightarrow> (error + response option) \<times> frame \<times> state \<Rightarrow> (error + response) \<times> frame \<times> state" where
  "endpoint_leave fr1 out =
     (case out of
        (Inl err, fr', s2) \<Rightarrow> (Inl err, fr1, s2)
      | (Inr None, fr', s2) \<Rightarrow> (Inl (Thrown ''EndpointDidNotReturnAResponse''), fr1, s2)
      | (Inr (Some response), fr', s2) \<Rightarrow>
          (Inr response, fr1, merge_response_cookies fr1 response s2))"

text \<open>
  The page branch after \<^verbatim>\<open>renderPage\<close>: the \<^verbatim>\<open>catch\<close> sets \<^verbatim>\<open>result.cancelled\<close> and
  throws again; otherwise the headers are set and the cookies merged.
\<close>

definition page_leave ::
  "frame \<Rightarrow> nat \<Rightarrow> (error + response option) \<times> frame \<times> state
   \<Rightarrow> (error + response) \<times> frame \<times> state" where
  "page_leave fr1 result out =
     (case out of
        (Inl err, fr', s3) \<Rightarrow>
          (Inl err, fr1,
           s3\<lparr> result_store := (result_store s3)
                (result := (result_store s3 result)\<lparr> cancelled := True \<rparr>) \<rparr>)
      | (Inr reg, fr', s3) \<Rightarrow>
          (let response =
                 page_headers s3
                   (case reg of
                      None \<Rightarrow> rendered_document (result_store s3 result)
                    | Some r \<Rightarrow> r)
           in (Inr response, fr1, merge_response_cookies fr1 response s3)))"

definition redirect_branch :: "env \<Rightarrow> frame \<Rightarrow> state \<Rightarrow> (error + response) \<times> frame \<times> state" where
  "redirect_branch e fr1 s1 =
     (case renderRedirect e (routeData s1) (params s1) of
        Inl msg \<Rightarrow> (Inl (External msg), fr1, emit Ev_renderRedirect s1)
      | Inr response \<Rightarrow> (Inr response, fr1, emit Ev_renderRedirect s1))"

text \<open>The code of the component: \<^verbatim>\<open>componentInstance?.default\<close>.\<close>

definition component_code :: "component option \<Rightarrow> url \<Rightarrow> action list" where
  "component_code md u = (case md of None \<Rightarrow> [] | Some c \<Rightarrow> comp_default c u)"

text \<open>
  What one call of user code gives back to the code that made it: the response of
  \<^verbatim>\<open>next\<close> (with the frame it left), of \<^verbatim>\<open>rewrite\<close>, or of a call on the context.
\<close>

definition next_result ::
  "(error + response) \<times> frame \<times> state \<Rightarrow> (error + response option) \<times> frame \<times> state" where
  "next_result out =
     (case out of
        (Inl err, fr', s') \<Rightarrow> (Inl err, fr', s')
      | (Inr response, fr', s') \<Rightarrow> (Inr (Some response), fr', s'))"

definition rewrite_result ::
  "frame \<Rightarrow> (error + response) \<times> state \<Rightarrow> (error + response option) \<times> frame \<times> state" where
  "rewrite_result fr out =
     (case out of
        (Inl err, s') \<Rightarrow> (Inl err, fr, s')
      | (Inr response, s') \<Rightarrow> (Inr (Some response), fr, s'))"

definition call_result ::
  "frame \<Rightarrow> (error + response option) \<times> state \<Rightarrow> (error + response option) \<times> frame \<times> state" where
  "call_result fr out = (case out of (r, s') \<Rightarrow> (r, fr, s'))"

text \<open>The response a call of user code leaves in \<open>reg\<close>.\<close>

definition new_reg :: "response option \<Rightarrow> response option \<Rightarrow> response option" where
  "new_reg reg r = (case r of None \<Rightarrow> reg | Some response \<Rightarrow> Some response)"

text \<open>
  The four functions call each other, and user code can make the recursion endless
  (the counter is compared with \<^verbatim>\<open>=== 4\<close> once, not bounded), so each takes fuel: the
  value \<open>None\<close> is "did not return within the fuel".

  Modelled from the spec: \<^verbatim>\<open>callMiddleware\<close>, \<^verbatim>\<open>renderEndpoint\<close> and \<^verbatim>\<open>renderPage\<close> are
  in other modules; each hands the context to user code and returns what that code
  returns. \<open>exec\<close> is that user code running, call by call; \<open>reg\<close> holds the last
  response obtained, which is what the code returns. \<^verbatim>\<open>next\<close> is bound to \<^verbatim>\<open>lastNext\<close>
  in the middleware only, \<^verbatim>\<open>rewrite\<close> to \<^verbatim>\<open>#executeRewrite\<close> everywhere.
\<close>

function render :: "nat \<Rightarrow> env \<Rightarrow> component option \<Rightarrow> state \<Rightarrow> ((error + response) \<times> state) option"
and exec ::
  "nat \<Rightarrow> env \<Rightarrow> mode \<Rightarrow> api_context \<Rightarrow> frame \<Rightarrow> response option \<Rightarrow> action list \<Rightarrow> state
   \<Rightarrow> ((error + response option) \<times> frame \<times> state) option"
and lastNext ::
  "nat \<Rightarrow> env \<Rightarrow> frame \<Rightarrow> payload option \<Rightarrow> state \<Rightarrow> ((error + response) \<times> frame \<times> state) option"
and executeRewrite :: "nat \<Rightarrow> env \<Rightarrow> payload \<Rightarrow> state \<Rightarrow> ((error + response) \<times> state) option"
where
  "render 0 e componentInstance s = None"
| "render (Suc n) e componentInstance s =
     (case render_enter e componentInstance s of
        (Inl res, s1) \<Rightarrow> Some (res, s1)
      | (Inr fr, s1) \<Rightarrow>
          (case exec n e InMiddleware (fr_api fr) fr None (middleware e (ac_url (fr_api fr)))
                  (emit (Ev_callMiddleware (ac_url (fr_api fr))) s1) of
             None \<Rightarrow> None
           | Some out \<Rightarrow> Some (render_leave fr out)))"
| "exec 0 e m api fr reg acts s = None"
| "exec (Suc n) e m api fr reg acts s =
     (case acts of
        [] \<Rightarrow> Some (Inr reg, fr, s)
      | a # rest \<Rightarrow>
          (case (case a of
                   Act_next pl \<Rightarrow>
                     (if m \<noteq> InMiddleware then Some (Inl (TypeError ''next''), fr, s)
                      else (case lastNext n e fr pl s of
                              None \<Rightarrow> None
                            | Some out \<Rightarrow> Some (next_result out)))
                 | Act_rewrite pl \<Rightarrow>
                     (case executeRewrite n e pl s of
                        None \<Rightarrow> None
                      | Some out \<Rightarrow> Some (rewrite_result fr out))
                 | Act c \<Rightarrow> Some (call_result fr (api_step e m api c s))) of
             None \<Rightarrow> None
           | Some (Inl err, fr', s') \<Rightarrow> Some (Inl err, fr', s')
           | Some (Inr r, fr', s') \<Rightarrow> exec n e m api fr' (new_reg reg r) rest s'))"
| "lastNext 0 e fr pl s = None"
| "lastNext (Suc n) e fr pl s =
     (case lastNext_rewrite e pl fr s of
        (Inl err, s1) \<Rightarrow> Some (Inl err, fr, s1)
      | (Inr fr1, s1) \<Rightarrow>
          (case rd_type (routeData s1) of
             Endpoint \<Rightarrow>
               (case fr_component fr1 of
                  None \<Rightarrow> Some (Inl (TypeError ''endpoint''), fr1, s1)
                | Some c \<Rightarrow>
                    (case exec n e InEndpoint (fr_api fr1) fr1 None
                            (comp_default c (ac_url (fr_api fr1))) (emit Ev_renderEndpoint s1) of
                       None \<Rightarrow> None
                     | Some out \<Rightarrow> Some (endpoint_leave fr1 out)))
           | Redirect \<Rightarrow> Some (redirect_branch e fr1 s1)
           | Page \<Rightarrow>
               (case createResult e (fr_component fr1) s1 of
                  (Inl err, s2) \<Rightarrow> Some (Inl err, fr1, s2)
                | (Inr result, s2) \<Rightarrow>
                    (case exec n e InPage (createAstroPagePartial (fr_props fr1) s2) fr1 None
                            (component_code (fr_component fr1) (url s2))
                            (emit (Ev_renderPage result) s2) of
                       None \<Rightarrow> None
                     | Some out \<Rightarrow> Some (page_leave fr1 result out)))
           | Fallback \<Rightarrow> Some (Inr fallback_response, fr1, s1)))"
| "executeRewrite 0 e reroutePayload s = None"
| "executeRewrite (Suc n) e reroutePayload s =
     (case executeRewrite_state e reroutePayload s of
        (Inl err, s1) \<Rightarrow> Some (Inl err, s1)
      | (Inr component, s1) \<Rightarrow> render n e (Some component) s1)"
  by pat_completeness auto
termination
  by (relation "measure (\<lambda>x. case x of
          Inl (Inl (n, _)) \<Rightarrow> n | Inl (Inr (n, _)) \<Rightarrow> n
        | Inr (Inl (n, _)) \<Rightarrow> n | Inr (Inr (n, _)) \<Rightarrow> n)") auto

subsection \<open>What the claims say about the trace\<close>

text \<open>
  A context is anchored at a route when that route is its \<^verbatim>\<open>originalRoute\<close> and every
  call of the rewrite resolver recorded so far was given that route as its third
  argument.
\<close>

definition anchored :: "route_data \<Rightarrow> state \<Rightarrow> bool" where
  "anchored orig s =
     (originalRoute s = orig \<and>
      (\<forall>ev \<in> set (trace s). case ev of Ev_tryRewrite p rq a \<Rightarrow> a = orig | _ \<Rightarrow> True))"

definition is_tryRewrite :: "event \<Rightarrow> bool" where
  "is_tryRewrite ev = (case ev of Ev_tryRewrite p rq a \<Rightarrow> True | _ \<Rightarrow> False)"






subsection \<open>A concrete site, for evaluating the definitions\<close>

text \<open>
  One page \<^verbatim>\<open>/a\<close> requested with \<^verbatim>\<open>GET\<close> (so the request has no body), on a server-like
  pipeline without an adapter name and without i18n; a middleware that only calls
  \<^verbatim>\<open>next()\<close>; a resolver that sends every rewrite to the page \<^verbatim>\<open>/b\<close>.
\<close>

definition demo_url :: url where
  "demo_url = \<lparr> href = ''http://localhost/a'', url_pathname = ''/a'' \<rparr>"

definition demo_url_b :: url where
  "demo_url_b = \<lparr> href = ''http://localhost/b'', url_pathname = ''/b'' \<rparr>"

definition demo_request :: request where
  "demo_request =
     \<lparr> req_url = demo_url, req_method = ''GET'', body = None, body_stream = 0,
       bodyUsed = False,
       clientAddressSym = None, clientLocalsSym = None, responseSentSym = False \<rparr>"

definition demo_route :: route_data where
  "demo_route = \<lparr> rd_type = Page, rd_route = ''/a'' \<rparr>"

definition demo_route_b :: route_data where
  "demo_route_b = \<lparr> rd_type = Page, rd_route = ''/b'' \<rparr>"

definition demo_page :: component where
  "demo_page = \<lparr> comp_default = (\<lambda>u. []), comp_partial = False \<rparr>"

definition demo_env :: env where
  "demo_env =
     \<lparr> serverLike = True, adapterName = None, i18n = None,
       middleware = (\<lambda>u. [Act_next None]),
       tryRewrite = (\<lambda>p rq anchor. Inr (demo_route_b, demo_page, demo_url_b)),
       getProps = (\<lambda>c rd pn. Inr []),
       getParams = (\<lambda>rd pn. []),
       headElements = (\<lambda>rd. None),
       renderRedirect = (\<lambda>rd ps. Inl ''no redirect''),
       i18n_computeCurrentLocale = (\<lambda>p ls. None),
       i18n_computePreferredLocale = (\<lambda>rq ls. None),
       i18n_computePreferredLocaleList = (\<lambda>rq ls. None) \<rparr>"

definition demo_state :: state where
  "demo_state = create demo_env (JObj []) ''/a'' demo_request demo_route 200 []"



text \<open>A request whose body has been read, and a page whose frontmatter throws.\<close>

definition demo_used_state :: state where
  "demo_used_state =
     create demo_env (JObj []) ''/a'' (demo_request\<lparr> body := Some ''x'', bodyUsed := True \<rparr>)
       demo_route 200 []"

definition demo_throwing_page :: component where
  "demo_throwing_page = \<lparr> comp_default = (\<lambda>u. [Act (Call_throw ''boom'')]), comp_partial = False \<rparr>"

definition demo_frame :: "component \<Rightarrow> state \<Rightarrow> frame" where
  "demo_frame c s =
     \<lparr> fr_component = Some c, fr_props = [], fr_cookies = cookies s,
       fr_api = createAPIContext [] s \<rparr>"

text \<open>
  A middleware that rewrites through the context at \<^verbatim>\<open>/a\<close> and passes a payload to
  \<^verbatim>\<open>next\<close> everywhere else: one request, both kinds of rewrite.
\<close>

definition demo_rewriting_env :: env where
  "demo_rewriting_env =
     demo_env\<lparr> middleware :=
       (\<lambda>u. if url_pathname u = ''/a'' then [Act_rewrite (PayloadString ''/b'')]
            else [Act_next (Some (PayloadString ''/c''))]) \<rparr>"


definition demo_nested_env :: env where
  "demo_nested_env = demo_env\<lparr> middleware := (\<lambda>u. [Act_rewrite (PayloadString ''/b'')]) \<rparr>"

definition demo_cookie_env :: env where
  "demo_cookie_env =
     demo_env\<lparr> middleware :=
       (\<lambda>u. if url_pathname u = ''/a'' then [Act_rewrite (PayloadString ''/b'')]
            else [Act (Call_setCookie ''session'' ''inner''), Act_next None]) \<rparr>"





text \<open>
  A resolver that finds the page \<^verbatim>\<open>/b\<close> when it is asked relative to the route \<^verbatim>\<open>/a\<close>,
  and throws when it is asked relative to any other route.
\<close>

definition demo_anchor_resolver ::
  "payload \<Rightarrow> request \<Rightarrow> route_data \<Rightarrow> string + (route_data \<times> component \<times> url)" where
  "demo_anchor_resolver p rq anchor =
     (if anchor = demo_route then Inr (demo_route_b, demo_page, demo_url_b)
      else Inl ''escaped'')"


text \<open>
  A middleware that, at \<^verbatim>\<open>/a\<close>, rewrites through the context four times in succession
  and returns the last response, and calls \<^verbatim>\<open>next()\<close> elsewhere.
\<close>

definition demo_sequential_env :: env where
  "demo_sequential_env =
     demo_env\<lparr> middleware :=
       (\<lambda>u. if url_pathname u = ''/a''
            then [Act_rewrite (PayloadString ''/b''), Act_rewrite (PayloadString ''/b''),
                  Act_rewrite (PayloadString ''/b''), Act_rewrite (PayloadString ''/b'')]
            else [Act_next None]) \<rparr>"


section \<open>Properties\<close>

subsection \<open>What every run preserves\<close>

text \<open>
  A property of the context that each piece of \<^verbatim>\<open>render\<close>, \<^verbatim>\<open>lastNext\<close> and
  \<^verbatim>\<open>#executeRewrite\<close> and each call of user code preserves holds at the end of
  every run that returns, whatever the user code does.
\<close>

lemma render_leave_state: "snd (render_leave fr (r, fr', s)) = s"
  by (simp add: render_leave_def split: sum.splits option.splits)

lemma run_invariant:
  assumes enter: "\<And>c s. Q s \<Longrightarrow> Q (snd (render_enter e c s))"
      and mw: "\<And>u s. Q s \<Longrightarrow> Q (emit (Ev_callMiddleware u) s)"
      and ep: "\<And>s. Q s \<Longrightarrow> Q (emit Ev_renderEndpoint s)"
      and pg: "\<And>rid s. Q s \<Longrightarrow> Q (emit (Ev_renderPage rid) s)"
      and call: "\<And>m api a s. Q s \<Longrightarrow> Q (snd (api_step e m api a s))"
      and payload: "\<And>pl fr s. Q s \<Longrightarrow> Q (snd (lastNext_rewrite e pl fr s))"
      and rewrite: "\<And>pl s. Q s \<Longrightarrow> Q (snd (executeRewrite_state e pl s))"
      and result: "\<And>c s. Q s \<Longrightarrow> Q (snd (createResult e c s))"
      and endpoint: "\<And>fr r fr' s. Q s \<Longrightarrow> Q (snd (snd (endpoint_leave fr (r, fr', s))))"
      and page: "\<And>fr rid r fr' s. Q s \<Longrightarrow> Q (snd (snd (page_leave fr rid (r, fr', s))))"
      and redirected: "\<And>fr s. Q s \<Longrightarrow> Q (snd (snd (redirect_branch e fr s)))"
  shows "(\<forall>c s res s'. render n e c s = Some (res, s') \<longrightarrow> Q s \<longrightarrow> Q s') \<and>
   (\<forall>m api fr reg acts s res fr' s'.
      exec n e m api fr reg acts s = Some (res, fr', s') \<longrightarrow> Q s \<longrightarrow> Q s') \<and>
   (\<forall>fr pl s res fr' s'.
      lastNext n e fr pl s = Some (res, fr', s') \<longrightarrow> Q s \<longrightarrow> Q s') \<and>
   (\<forall>pl s res s'.
      executeRewrite n e pl s = Some (res, s') \<longrightarrow> Q s \<longrightarrow> Q s')"
proof (induction n)
  case 0
  show ?case by simp
next
  case (Suc n)
  note IHr = Suc [THEN conjunct1, rule_format]
  note IHx = Suc [THEN conjunct2, THEN conjunct1, rule_format]
  note IHl = Suc [THEN conjunct2, THEN conjunct2, THEN conjunct1, rule_format]
  note IHw = Suc [THEN conjunct2, THEN conjunct2, THEN conjunct2, rule_format]
  have R: "Q s'"
    if run: "render (Suc n) e c s = Some (res, s')" and a: "Q s" for c s res s'
  proof (cases "render_enter e c s")
    case (Pair x s1)
    have a1: "Q s1"
      using enter [OF a, of c] Pair by simp
    show ?thesis
    proof (cases x)
      case (Inl r)
      with run Pair a1 show ?thesis by simp
    next
      case (Inr fr)
      let ?s1 = "emit (Ev_callMiddleware (ac_url (fr_api fr))) s1"
      have a2: "Q ?s1" by (rule mw [OF a1])
      from run Pair Inr obtain out where
        o: "exec n e InMiddleware (fr_api fr) fr None (middleware e (ac_url (fr_api fr))) ?s1
              = Some out"
        and r: "render_leave fr out = (res, s')"
        by (auto split: option.splits)
      obtain r0 fr0 s0 where out: "out = (r0, fr0, s0)" by (cases out)
      have "Q s0" by (rule IHx [OF o [unfolded out] a2])
      moreover from r out render_leave_state [of fr r0 fr0 s0] have "s' = s0" by simp
      ultimately show ?thesis by simp
    qed
  qed
  have W: "Q s'"
    if run: "executeRewrite (Suc n) e pl s = Some (res, s')" and a: "Q s" for pl s res s'
  proof (cases "executeRewrite_state e pl s")
    case (Pair x s1)
    have a1: "Q s1"
      using rewrite [OF a, of pl] Pair by simp
    show ?thesis
    proof (cases x)
      case (Inl err)
      with run Pair a1 show ?thesis by simp
    next
      case (Inr comp)
      with run Pair have "render n e (Some comp) s1 = Some (res, s')" by simp
      then show ?thesis by (rule IHr) (rule a1)
    qed
  qed
  have L: "Q s'"
    if run: "lastNext (Suc n) e fr pl s = Some (res, fr', s')" and a: "Q s"
    for fr pl s res fr' s'
  proof (cases "lastNext_rewrite e pl fr s")
    case (Pair x s1)
    have a1: "Q s1"
      using payload [OF a, of pl fr] Pair by simp
    show ?thesis
    proof (cases x)
      case (Inl err)
      with run Pair a1 show ?thesis by simp
    next
      case (Inr fr1)
      show ?thesis
      proof (cases "rd_type (routeData s1)")
        case Endpoint
        show ?thesis
        proof (cases "fr_component fr1")
          case None
          with run Pair Inr Endpoint a1 show ?thesis by simp
        next
          case (Some c)
          let ?s1 = "emit Ev_renderEndpoint s1"
          have a2: "Q ?s1" by (rule ep [OF a1])
          from run Pair Inr Endpoint Some obtain out where
            o: "exec n e InEndpoint (fr_api fr1) fr1 None (comp_default c (ac_url (fr_api fr1))) ?s1
                  = Some out"
            and r: "endpoint_leave fr1 out = (res, fr', s')"
            by (auto split: option.splits)
          obtain r0 fr0 s0 where out: "out = (r0, fr0, s0)" by (cases out)
          have "Q s0" by (rule IHx [OF o [unfolded out] a2])
          from endpoint [OF this, of fr1 r0 fr0] r out show ?thesis by simp
        qed
      next
        case Redirect
        with run Pair Inr have "redirect_branch e fr1 s1 = (res, fr', s')" by simp
        with redirected [OF a1, of fr1] show ?thesis by simp
      next
        case Page
        show ?thesis
        proof (cases "createResult e (fr_component fr1) s1")
          case (Pair y s2)
          note cr = this
          have a2: "Q s2"
            using result [OF a1, of "fr_component fr1"] cr by simp
          show ?thesis
          proof (cases y)
            case (Inl err)
            with run \<open>lastNext_rewrite e pl fr s = (x, s1)\<close> Inr Page cr a2 show ?thesis by simp
          next
            case (Inr rid)
            let ?s2 = "emit (Ev_renderPage rid) s2"
            have a3: "Q ?s2" by (rule pg [OF a2])
            from run \<open>lastNext_rewrite e pl fr s = (x, s1)\<close> \<open>x = Inr fr1\<close> Page cr Inr
            obtain out where
              o: "exec n e InPage (createAstroPagePartial (fr_props fr1) s2) fr1 None
                    (component_code (fr_component fr1) (url s2)) ?s2 = Some out"
              and r: "page_leave fr1 rid out = (res, fr', s')"
              by (auto split: option.splits)
            obtain r0 fr0 s0 where out: "out = (r0, fr0, s0)" by (cases out)
            have "Q s0" by (rule IHx [OF o [unfolded out] a3])
            from page [OF this, of fr1 rid r0 fr0] r out show ?thesis by simp
          qed
        qed
      next
        case Fallback
        with run Pair Inr a1 show ?thesis by simp
      qed
    qed
  qed
  have X: "Q s'"
    if run: "exec (Suc n) e m api fr reg acts s = Some (res, fr', s')" and a: "Q s"
    for m api fr reg acts s res fr' s'
  proof (cases acts)
    case Nil
    with run a show ?thesis by simp
  next
    case (Cons act rest)
    have step: "\<exists>r1 fr1 s1. Q s1 \<and>
                  (case r1 of
                     Inl err \<Rightarrow> (res, fr', s') = (Inl err, fr1, s1)
                   | Inr r \<Rightarrow> exec n e m api fr1 (new_reg reg r) rest s1 = Some (res, fr', s'))"
    proof (cases act)
      case (Act_next pl)
      show ?thesis
      proof (cases "m \<noteq> InMiddleware")
        case True
        with run Cons Act_next a show ?thesis
          by (intro exI [of _ "Inl (TypeError ''next'')"] exI [of _ fr] exI [of _ s]) auto
      next
        case False
        with run Cons Act_next obtain out where
          o: "lastNext n e fr pl s = Some out"
          and r: "(case next_result out of
                     (Inl err, fr1, s1) \<Rightarrow> Some (Inl err, fr1, s1)
                   | (Inr r, fr1, s1) \<Rightarrow> exec n e m api fr1 (new_reg reg r) rest s1)
                  = Some (res, fr', s')"
          by (auto split: option.splits)
        obtain r0 fr0 s0 where out: "out = (r0, fr0, s0)" by (cases out)
        have a0: "Q s0" by (rule IHl [OF o [unfolded out] a])
        show ?thesis
          using r out a0
          by (intro exI [of _ "case r0 of Inl err \<Rightarrow> Inl err | Inr b \<Rightarrow> Inr (Some b)"]
                    exI [of _ fr0] exI [of _ s0])
             (cases r0; auto simp: next_result_def)
      qed
    next
      case (Act_rewrite pl)
      with run Cons obtain out where
        o: "executeRewrite n e pl s = Some out"
        and r: "(case rewrite_result fr out of
                   (Inl err, fr1, s1) \<Rightarrow> Some (Inl err, fr1, s1)
                 | (Inr r, fr1, s1) \<Rightarrow> exec n e m api fr1 (new_reg reg r) rest s1)
                = Some (res, fr', s')"
        by (auto split: option.splits)
      obtain r0 s0 where out: "out = (r0, s0)" by (cases out)
      have a0: "Q s0" by (rule IHw [OF o [unfolded out] a])
      show ?thesis
        using r out a0
        by (intro exI [of _ "case r0 of Inl err \<Rightarrow> Inl err | Inr b \<Rightarrow> Inr (Some b)"]
                  exI [of _ fr] exI [of _ s0])
           (cases r0; auto simp: rewrite_result_def)
    next
      case (Act c)
      obtain r0 s0 where st: "api_step e m api c s = (r0, s0)" by (cases "api_step e m api c s")
      have a0: "Q s0" using call [OF a, of m api c] st by simp
      show ?thesis
        using run Cons Act st a0
        by (intro exI [of _ r0] exI [of _ fr] exI [of _ s0])
           (cases r0; auto simp: call_result_def)
    qed
    then obtain r1 fr1 s1 where a1: "Q s1"
      and c: "(case r1 of
                 Inl err \<Rightarrow> (res, fr', s') = (Inl err, fr1, s1)
               | Inr r \<Rightarrow> exec n e m api fr1 (new_reg reg r) rest s1 = Some (res, fr', s'))"
      by blast
    show ?thesis
    proof (cases r1)
      case (Inl err)
      with c a1 show ?thesis by simp
    next
      case (Inr r)
      with c have "exec n e m api fr1 (new_reg reg r) rest s1 = Some (res, fr', s')" by simp
      then show ?thesis by (rule IHx) (rule a1)
    qed
  qed
  show ?case
    by (intro conjI allI impI) (erule R X L W, assumption)+
qed

subsection \<open>The \<^verbatim>\<open>locals\<close> setter\<close>

text \<open>
  C4, as the claim states it, fails: \<^verbatim>\<open>null\<close> is not an object, yet assigning it to
  \<^verbatim>\<open>locals\<close> does not throw, and \<^verbatim>\<open>locals\<close> of the context does not keep its value.
\<close>

theorem locals_setter_null_counterexample:
  "\<not> js_is_object JNull \<and>
   locals demo_state = JObj [] \<and>
   fst (set_locals (createActionAPIContext demo_state) JNull demo_state) = Inr () \<and>
   fst (set_locals (createActionAPIContext demo_state) JNull demo_state) \<noteq> Inl LocalsNotAnObject \<and>
   locals (snd (set_locals (createActionAPIContext demo_state) JNull demo_state)) = JNull \<and>
   locals (snd (set_locals (createActionAPIContext demo_state) JNull demo_state))
     \<noteq> locals demo_state"
  by (simp add: set_locals_def demo_state_def create_def)

text \<open>
  C4, amended. For every API context and every value whose \<^verbatim>\<open>typeof\<close> is not
  \<^verbatim>\<open>'object'\<close>, the \<^verbatim>\<open>locals\<close> setter throws \<^verbatim>\<open>LocalsNotAnObject\<close> and the context is
  exactly as before: \<^verbatim>\<open>locals\<close> keeps its value and nothing else is written. Every
  value that is not an object has such a \<^verbatim>\<open>typeof\<close>, except \<^verbatim>\<open>null\<close>.
\<close>

theorem locals_setter_rejects_non_object:
  "(js_typeof val \<noteq> ''object'' \<longrightarrow>
      set_locals api val s = (Inl LocalsNotAnObject, s) \<and>
      locals (snd (set_locals api val s)) = locals s) \<and>
   (\<not> js_is_object val \<longrightarrow> val \<noteq> JNull \<longrightarrow> js_typeof val \<noteq> ''object'')"
  by (cases val) (simp_all add: set_locals_def)

theorem locals_setter_rejects_non_object_witness:
  "\<not> js_is_object (JStr ''user'') \<and> JStr ''user'' \<noteq> JNull \<and>
   js_typeof (JStr ''user'') \<noteq> ''object'' \<and>
   set_locals (createActionAPIContext demo_state) (JStr ''user'') demo_state
     = (Inl LocalsNotAnObject, demo_state) \<and>
   \<not> js_is_object (JNum 7) \<and> JNum 7 \<noteq> JNull \<and>
   js_typeof (JNum 7) \<noteq> ''object'' \<and>
   fst (set_locals (createActionAPIContext demo_state) (JNum 7) demo_state)
     = Inl LocalsNotAnObject \<and>
   locals (snd (set_locals (createActionAPIContext demo_state) (JNum 7) demo_state))
     = locals demo_state"
  using locals_setter_rejects_non_object
          [of "JStr ''user''" "createActionAPIContext demo_state" demo_state]
        locals_setter_rejects_non_object
          [of "JNum 7" "createActionAPIContext demo_state" demo_state]
  by simp

text \<open>
  C10. Assigning \<^verbatim>\<open>null\<close> does not throw: the assignment succeeds and \<^verbatim>\<open>locals\<close> of the
  context becomes \<^verbatim>\<open>null\<close>. The setter throws exactly for the values whose \<^verbatim>\<open>typeof\<close>
  is not \<^verbatim>\<open>'object'\<close>, and these are \<^verbatim>\<open>undefined\<close>, booleans, numbers, bigints,
  strings, symbols and functions.
\<close>

theorem locals_setter_accepts_null:
  "fst (set_locals api JNull s) = Inr () \<and>
   locals (snd (set_locals api JNull s)) = JNull \<and>
   ((fst (set_locals api val s) = Inl LocalsNotAnObject) = (js_typeof val \<noteq> ''object'')) \<and>
   ((js_typeof val \<noteq> ''object'') =
      (case val of JNull \<Rightarrow> False | JArr xs \<Rightarrow> False | JObj fs \<Rightarrow> False | _ \<Rightarrow> True))"
  by (cases val) (simp_all add: set_locals_def)

subsection \<open>\<^verbatim>\<open>clientAddress\<close>\<close>

text \<open>
  C8, as the claim states it, fails: on a server-like pipeline without an adapter
  name, a request without the address symbol and with a \<^verbatim>\<open>null\<close> body gets
  \<^verbatim>\<open>PrerenderClientAddressNotAvailable\<close>, not the error that says the site is static.
\<close>

theorem clientAddress_null_body_counterexample:
  "serverLike demo_env \<and> adapterName demo_env = None \<and>
   clientAddressSym (req_store demo_state (request demo_state)) = None \<and>
   body (req_store demo_state (request demo_state)) = None \<and>
   clientAddress demo_env demo_state = Inl PrerenderClientAddressNotAvailable \<and>
   clientAddress demo_env demo_state \<noteq> Inl StaticClientAddressNotAvailable"
  by (simp add: clientAddress_def demo_env_def demo_state_def create_def demo_request_def)

text \<open>
  C8, amended. On a server-like pipeline, with no address symbol on the request:
  a \<^verbatim>\<open>null\<close> body gives \<^verbatim>\<open>PrerenderClientAddressNotAvailable\<close>, whatever the adapter name;
  with a body, a (non-empty) adapter name gives \<^verbatim>\<open>ClientAddressNotAvailable\<close> naming
  that adapter, and no adapter name gives \<^verbatim>\<open>StaticClientAddressNotAvailable\<close>.
\<close>

theorem clientAddress_server_like:
  "serverLike e \<Longrightarrow> clientAddressSym (req_store s (request s)) = None \<Longrightarrow>
   clientAddress e s =
     (if body (req_store s (request s)) = None then Inl PrerenderClientAddressNotAvailable
      else case adapterName e of
             None \<Rightarrow> Inl StaticClientAddressNotAvailable
           | Some nm \<Rightarrow> if nm = [] then Inl StaticClientAddressNotAvailable
                        else Inl (ClientAddressNotAvailable nm))"
  by (simp add: clientAddress_def split: option.splits)

theorem clientAddress_server_like_witness:
  "serverLike (demo_env\<lparr> adapterName := Some ''node'' \<rparr>) \<and>
   clientAddressSym (req_store (create demo_env JNull ''/a'' (demo_request\<lparr> body := Some ''x'' \<rparr>)
      demo_route 200 []) 0) = None \<and>
   clientAddress (demo_env\<lparr> adapterName := Some ''node'' \<rparr>)
     (create demo_env JNull ''/a'' (demo_request\<lparr> body := Some ''x'' \<rparr>) demo_route 200 [])
     = Inl (ClientAddressNotAvailable ''node'')"
  using clientAddress_server_like
          [of "demo_env\<lparr> adapterName := Some ''node'' \<rparr>"
              "create demo_env JNull ''/a'' (demo_request\<lparr> body := Some ''x'' \<rparr>) demo_route 200 []"]
  by (simp add: demo_env_def create_def demo_request_def)

subsection \<open>The locale computations\<close>



























subsection \<open>The rewrite payload passed to \<^verbatim>\<open>next\<close>\<close>

text \<open>
  C6. Processing a rewrite payload in \<^verbatim>\<open>lastNext\<close> leaves \<^verbatim>\<open>request\<close>, \<^verbatim>\<open>url\<close>,
  \<^verbatim>\<open>cookies\<close>, \<^verbatim>\<open>params\<close> and \<^verbatim>\<open>pathname\<close> of the context (and the stored requests and
  jars) unchanged, whatever the resolver answers. When the resolver finds a route, the
  context afterwards is the context before with \<^verbatim>\<open>routeData\<close> replaced, \<^verbatim>\<open>status\<close> = 200
  and \<^verbatim>\<open>isRewriting\<close> = true (and the call of the resolver in the trace), and the frame
  is the frame before with the component replaced: nothing else is written.
\<close>

theorem middleware_rewrite_writes_only_route:
  "request (snd (lastNext_rewrite e pl fr s)) = request s \<and>
   url (snd (lastNext_rewrite e pl fr s)) = url s \<and>
   cookies (snd (lastNext_rewrite e pl fr s)) = cookies s \<and>
   params (snd (lastNext_rewrite e pl fr s)) = params s \<and>
   pathname (snd (lastNext_rewrite e pl fr s)) = pathname s \<and>
   req_store (snd (lastNext_rewrite e pl fr s)) = req_store s \<and>
   jar_store (snd (lastNext_rewrite e pl fr s)) = jar_store s \<and>
   (payload_given pl = Some p \<longrightarrow>
    tryRewrite e p (req_store s (request s)) (originalRoute s) = Inr (rd, c, u) \<longrightarrow>
    lastNext_rewrite e pl fr s =
      (Inr (fr\<lparr> fr_component := Some c \<rparr>),
       s\<lparr> routeData := rd, isRewriting := True, status := 200,
          trace := trace s @ [Ev_tryRewrite p (req_store s (request s)) (originalRoute s)] \<rparr>))"
  by (auto simp: lastNext_rewrite_def emit_def Let_def split: option.splits sum.splits)

theorem middleware_rewrite_writes_only_route_witness:
  "payload_given (Some (PayloadString ''/b'')) = Some (PayloadString ''/b'') \<and>
   tryRewrite demo_env (PayloadString ''/b'') (req_store demo_state (request demo_state))
     (originalRoute demo_state) = Inr (demo_route_b, demo_page, demo_url_b) \<and>
   lastNext_rewrite demo_env (Some (PayloadString ''/b'')) (demo_frame demo_page demo_state)
       demo_state =
     (Inr ((demo_frame demo_page demo_state)\<lparr> fr_component := Some demo_page \<rparr>),
      demo_state\<lparr> routeData := demo_route_b, isRewriting := True, status := 200,
         trace := trace demo_state @
           [Ev_tryRewrite (PayloadString ''/b'') (req_store demo_state (request demo_state))
              (originalRoute demo_state)] \<rparr>)"
  using middleware_rewrite_writes_only_route
          [of demo_env "Some (PayloadString ''/b'')" "demo_frame demo_page demo_state" demo_state
              "PayloadString ''/b''" demo_route_b demo_page demo_url_b]
  by (simp add: payload_given_def demo_env_def)

subsection \<open>The rewrite of the API context and a consumed body\<close>

text \<open>
  C7. Take a rewrite through the API context whose payload is not a \<^verbatim>\<open>Request\<close>,
  on a context whose request has a used body. Once the resolver has found the route
  (so that the request is to be copied to the new URL), \<^verbatim>\<open>#executeRewrite\<close> throws
  \<^verbatim>\<open>RewriteWithBodyUsed\<close> and does not go on to \<^verbatim>\<open>render\<close>: whatever the fuel, the result
  is this error, and only \<^verbatim>\<open>routeData\<close> has been assigned. (If the resolver itself
  throws, its error comes out; either way the rewrite does not proceed.) If the
  payload is a \<^verbatim>\<open>Request\<close>, no copy is made: the context's request becomes the payload
  itself and \<^verbatim>\<open>render\<close> is entered; with such a payload the part of
  \<^verbatim>\<open>#executeRewrite\<close> before \<^verbatim>\<open>render\<close> never throws \<^verbatim>\<open>RewriteWithBodyUsed\<close>.
\<close>

theorem rewrite_with_consumed_body:
  "((\<forall>r. pl \<noteq> PayloadRequest r) \<longrightarrow> bodyUsed (req_store s (request s)) \<longrightarrow>
      tryRewrite e pl (req_store s (request s)) (originalRoute s) = Inr (rd, c, u) \<longrightarrow>
      executeRewrite (Suc n) e pl s =
        Some (Inl RewriteWithBodyUsed,
              s\<lparr> routeData := rd,
                 trace := trace s @
                   [Ev_tryRewrite pl (req_store s (request s)) (originalRoute s)] \<rparr>)) \<and>
   ((\<forall>r. pl \<noteq> PayloadRequest r) \<longrightarrow> bodyUsed (req_store s (request s)) \<longrightarrow>
      (\<exists>err s'. executeRewrite (Suc n) e pl s = Some (Inl err, s'))) \<and>
   (tryRewrite e pl (req_store s (request s)) (originalRoute s) = Inr (rd, c, u) \<longrightarrow>
    pl = PayloadRequest r \<longrightarrow>
      fst (executeRewrite_state e pl s) = Inr c \<and>
      req_store (snd (executeRewrite_state e pl s))
        (request (snd (executeRewrite_state e pl s))) = r \<and>
      executeRewrite (Suc n) e pl s
        = render n e (Some c) (snd (executeRewrite_state e pl s))) \<and>
   fst (executeRewrite_state e (PayloadRequest r') s') \<noteq> Inl RewriteWithBodyUsed"
proof (intro conjI impI)
  assume np: "\<forall>r. pl \<noteq> PayloadRequest r" and bu: "bodyUsed (req_store s (request s))"
  show "executeRewrite (Suc n) e pl s =
          Some (Inl RewriteWithBodyUsed,
                s\<lparr> routeData := rd,
                   trace := trace s @
                     [Ev_tryRewrite pl (req_store s (request s)) (originalRoute s)] \<rparr>)"
    if "tryRewrite e pl (req_store s (request s)) (originalRoute s) = Inr (rd, c, u)"
    using that np bu
    by (cases pl) (auto simp: executeRewrite_state_def emit_def Let_def copyRequest_def)
  show "\<exists>err s'. executeRewrite (Suc n) e pl s = Some (Inl err, s')"
    using np bu
    by (cases pl; cases "tryRewrite e pl (req_store s (request s)) (originalRoute s)")
       (auto simp: executeRewrite_state_def emit_def Let_def copyRequest_def)
next
  assume "tryRewrite e pl (req_store s (request s)) (originalRoute s) = Inr (rd, c, u)"
    and "pl = PayloadRequest r"
  then show "fst (executeRewrite_state e pl s) = Inr c"
    and "req_store (snd (executeRewrite_state e pl s))
           (request (snd (executeRewrite_state e pl s))) = r"
    and "executeRewrite (Suc n) e pl s
           = render n e (Some c) (snd (executeRewrite_state e pl s))"
    by (auto simp: executeRewrite_state_def emit_def Let_def)
next
  show "fst (executeRewrite_state e (PayloadRequest r') s') \<noteq> Inl RewriteWithBodyUsed"
    by (auto simp: executeRewrite_state_def emit_def Let_def split: sum.splits)
qed

theorem rewrite_with_consumed_body_witness:
  "tryRewrite demo_env (PayloadString ''/b'')
     (req_store demo_used_state (request demo_used_state)) (originalRoute demo_used_state)
     = Inr (demo_route_b, demo_page, demo_url_b) \<and>
   bodyUsed (req_store demo_used_state (request demo_used_state)) \<and>
   map_option fst (executeRewrite (Suc 0) demo_env (PayloadString ''/b'') demo_used_state)
     = Some (Inl RewriteWithBodyUsed) \<and>
   (\<exists>err s'. executeRewrite (Suc 0) demo_env (PayloadString ''/b'') demo_used_state
              = Some (Inl err, s')) \<and>
   fst (executeRewrite_state demo_env (PayloadRequest demo_request) demo_used_state)
     = Inr demo_page \<and>
   req_store (snd (executeRewrite_state demo_env (PayloadRequest demo_request) demo_used_state))
     (request (snd (executeRewrite_state demo_env (PayloadRequest demo_request) demo_used_state)))
     = demo_request"
proof -
  have a: "tryRewrite demo_env (PayloadString ''/b'')
             (req_store demo_used_state (request demo_used_state)) (originalRoute demo_used_state)
           = Inr (demo_route_b, demo_page, demo_url_b)"
    by (simp add: demo_env_def)
  have b: "tryRewrite demo_env (PayloadRequest demo_request)
             (req_store demo_used_state (request demo_used_state)) (originalRoute demo_used_state)
           = Inr (demo_route_b, demo_page, demo_url_b)"
    by (simp add: demo_env_def)
  have u: "bodyUsed (req_store demo_used_state (request demo_used_state))"
    by (simp add: demo_used_state_def create_def)
  have np: "\<And>r. PayloadString ''/b'' \<noteq> PayloadRequest r" by simp
  note t = rewrite_with_consumed_body
             [where e = demo_env and s = demo_used_state and n = 0 and rd = demo_route_b
                and c = demo_page and u = demo_url_b]
  from t [where pl = "PayloadString ''/b''", THEN conjunct1, rule_format, OF np u a]
  have 1: "map_option fst (executeRewrite (Suc 0) demo_env (PayloadString ''/b'') demo_used_state)
             = Some (Inl RewriteWithBodyUsed)"
    by simp
  from t [where pl = "PayloadString ''/b''", THEN conjunct2, THEN conjunct1, rule_format, OF np u]
  have 2: "\<exists>err s'. executeRewrite (Suc 0) demo_env (PayloadString ''/b'') demo_used_state
                     = Some (Inl err, s')" .
  from t [where pl = "PayloadRequest demo_request" and r = demo_request,
          THEN conjunct2, THEN conjunct2, THEN conjunct1, rule_format, OF b refl]
  have 3: "fst (executeRewrite_state demo_env (PayloadRequest demo_request) demo_used_state)
             = Inr demo_page \<and>
           req_store (snd (executeRewrite_state demo_env (PayloadRequest demo_request) demo_used_state))
             (request (snd (executeRewrite_state demo_env (PayloadRequest demo_request)
                              demo_used_state)))
             = demo_request"
    by simp
  from a u 1 2 3 show ?thesis by (intro conjI) simp_all
qed

subsection \<open>A page whose rendering throws\<close>

text \<open>
  C5. In a page dispatch (\<^verbatim>\<open>lastNext\<close> on a route of type \<^verbatim>\<open>page\<close>, with or without
  a rewrite payload before it), the result made by \<^verbatim>\<open>createResult\<close> has
  \<^verbatim>\<open>cancelled = false\<close>; if the renderer then throws, \<^verbatim>\<open>lastNext\<close> throws the same
  error, and in the state the caller sees with it the result has \<^verbatim>\<open>cancelled = true\<close>.
\<close>

theorem page_render_failure_cancels_result:
  assumes "lastNext_rewrite e pl fr s = (Inr fr1, s1)"
      and "rd_type (routeData s1) = Page"
      and "createResult e (fr_component fr1) s1 = (Inr result, s2)"
      and "exec n e InPage (createAstroPagePartial (fr_props fr1) s2) fr1 None
             (component_code (fr_component fr1) (url s2)) (emit (Ev_renderPage result) s2)
           = Some (Inl err, fr', s3)"
  shows "cancelled (result_store s2 result) = False \<and>
         (\<exists>s'. lastNext (Suc n) e fr pl s = Some (Inl err, fr1, s') \<and>
               cancelled (result_store s' result) = True)"
  using assms
  by (auto simp: page_leave_def createResult_def new_result_def split: option.splits)

theorem page_render_failure_cancels_result_witness:
  "cancelled (result_store
      (snd (createResult demo_env (Some demo_throwing_page) demo_state)) 0) = False \<and>
   (\<exists>s'. lastNext (Suc (Suc 0)) demo_env (demo_frame demo_throwing_page demo_state) None
            demo_state
          = Some (Inl (Thrown ''boom''), demo_frame demo_throwing_page demo_state, s') \<and>
         cancelled (result_store s' 0) = True)"
proof -
  let ?fr = "demo_frame demo_throwing_page demo_state"
  let ?s2 = "snd (createResult demo_env (Some demo_throwing_page) demo_state)"
  have 1: "lastNext_rewrite demo_env None ?fr demo_state = (Inr ?fr, demo_state)"
    by (simp add: lastNext_rewrite_def payload_given_def)
  have 2: "rd_type (routeData demo_state) = Page"
    by (simp add: demo_state_def create_def demo_route_def)
  have 3: "createResult demo_env (fr_component ?fr) demo_state = (Inr 0, ?s2)"
    by (simp add: createResult_def demo_frame_def demo_env_def demo_state_def create_def)
  have 4: "exec (Suc 0) demo_env InPage (createAstroPagePartial (fr_props ?fr) ?s2) ?fr None
             (component_code (fr_component ?fr) (url ?s2)) (emit (Ev_renderPage 0) ?s2)
           = Some (Inl (Thrown ''boom''), ?fr, emit (Ev_renderPage 0) ?s2)"
    by (simp add: component_code_def demo_frame_def demo_throwing_page_def call_result_def
          api_step_def)
  from page_render_failure_cancels_result [OF 1 2 3 4] show ?thesis .
qed

subsection \<open>The anchor of every rewrite\<close>

lemma anchored_same:
  "originalRoute s' = originalRoute s \<Longrightarrow> trace s' = trace s \<Longrightarrow> anchored orig s' = anchored orig s"
  by (simp add: anchored_def)

lemma anchored_emit:
  "anchored orig s \<Longrightarrow> (case ev of Ev_tryRewrite p rq a \<Rightarrow> a = orig | _ \<Rightarrow> True) \<Longrightarrow>
   anchored orig (emit ev s)"
  by (simp add: anchored_def emit_def)

lemma anchored_render_enter:
  "anchored orig s \<Longrightarrow> anchored orig (snd (render_enter e c s))"
  by (auto simp: render_enter_def resolve_props_def anchored_def emit_def Let_def
           split: sum.splits prod.splits if_splits)

lemma endpoint_leave_state:
  "anchored orig s \<Longrightarrow> anchored orig (snd (snd (endpoint_leave fr (r, fr', s))))"
  by (auto simp: endpoint_leave_def merge_response_cookies_def anchored_def
           split: sum.splits option.splits)

lemma page_leave_state:
  "anchored orig s \<Longrightarrow> anchored orig (snd (snd (page_leave fr rid (r, fr', s))))"
  by (auto simp: page_leave_def merge_response_cookies_def anchored_def Let_def
           split: sum.splits option.splits)

lemma redirect_branch_state:
  "anchored orig s \<Longrightarrow> anchored orig (snd (snd (redirect_branch e fr s)))"
  by (auto simp: redirect_branch_def anchored_def emit_def split: sum.splits)

lemma createResult_state:
  "anchored orig s \<Longrightarrow> anchored orig (snd (createResult e c s))"
  by (auto simp: createResult_def anchored_def split: option.splits)

lemma lastNext_rewrite_state:
  "anchored orig s \<Longrightarrow> anchored orig (snd (lastNext_rewrite e pl fr s))"
  by (auto simp: lastNext_rewrite_def anchored_def emit_def Let_def split: option.splits sum.splits)

lemma executeRewrite_state_state:
  "anchored orig s \<Longrightarrow> anchored orig (snd (executeRewrite_state e pl s))"
  by (auto simp: executeRewrite_state_def anchored_def emit_def Let_def copyRequest_def
           split: payload.splits sum.splits)

lemma locale_states:
  "anchored orig s \<Longrightarrow> anchored orig (snd (computeCurrentLocale e s))"
  "anchored orig s \<Longrightarrow> anchored orig (snd (computePreferredLocale e s))"
  "anchored orig s \<Longrightarrow> anchored orig (snd (computePreferredLocaleList e s))"
  by (auto simp: computeCurrentLocale_def computePreferredLocale_def computePreferredLocaleList_def
        anchored_def emit_def Let_def split: option.splits)

lemma set_locals_state:
  "set_locals api v s = (r, s') \<Longrightarrow> anchored orig s \<Longrightarrow> anchored orig s'"
  by (auto simp: set_locals_def anchored_def split: if_splits)

lemma anchored_stores [simp]:
  "anchored orig (s\<lparr> jar_store := j \<rparr>) = anchored orig s"
  "anchored orig (s\<lparr> req_store := q \<rparr>) = anchored orig s"
  by (simp_all add: anchored_def)

lemma api_step_state:
  "anchored orig s \<Longrightarrow> anchored orig (snd (api_step e m api a s))"
  by (cases a)
     (auto simp: api_step_def locale_states Let_def
           split: sum.splits prod.splits if_splits dest: set_locals_state)


lemma anchored_run:
  "(\<forall>c s res s'. render n e c s = Some (res, s') \<longrightarrow> anchored orig s \<longrightarrow> anchored orig s') \<and>
   (\<forall>m api fr reg acts s res fr' s'.
      exec n e m api fr reg acts s = Some (res, fr', s') \<longrightarrow> anchored orig s \<longrightarrow> anchored orig s') \<and>
   (\<forall>fr pl s res fr' s'.
      lastNext n e fr pl s = Some (res, fr', s') \<longrightarrow> anchored orig s \<longrightarrow> anchored orig s') \<and>
   (\<forall>pl s res s'.
      executeRewrite n e pl s = Some (res, s') \<longrightarrow> anchored orig s \<longrightarrow> anchored orig s')"
  by (rule run_invariant)
     (erule anchored_render_enter anchored_emit api_step_state lastNext_rewrite_state
        executeRewrite_state_state createResult_state endpoint_leave_state page_leave_state
        redirect_branch_state, simp?)+

lemmas anchored_render = anchored_run [THEN conjunct1, rule_format]
lemmas anchored_lastNext = anchored_run [THEN conjunct2, THEN conjunct2, THEN conjunct1, rule_format]
lemmas anchored_executeRewrite =
  anchored_run [THEN conjunct2, THEN conjunct2, THEN conjunct2, rule_format]

text \<open>No piece of a run assigns \<^verbatim>\<open>originalRoute\<close>.\<close>

lemma originalRoute_locale:
  "originalRoute (snd (computeCurrentLocale e s)) = originalRoute s"
  "originalRoute (snd (computePreferredLocale e s)) = originalRoute s"
  "originalRoute (snd (computePreferredLocaleList e s)) = originalRoute s"
  by (simp_all add: computeCurrentLocale_def computePreferredLocale_def
        computePreferredLocaleList_def emit_def Let_def split: option.splits)

lemma originalRoute_steps:
  "originalRoute (snd (render_enter e c s)) = originalRoute s"
  "originalRoute (emit ev s) = originalRoute s"
  "originalRoute (snd (lastNext_rewrite e pl fr s)) = originalRoute s"
  "originalRoute (snd (executeRewrite_state e rp s)) = originalRoute s"
  "originalRoute (snd (createResult e c s)) = originalRoute s"
  "originalRoute (snd (snd (endpoint_leave fr (r, fr', s)))) = originalRoute s"
  "originalRoute (snd (snd (page_leave fr rid (r, fr', s)))) = originalRoute s"
  "originalRoute (snd (snd (redirect_branch e fr s))) = originalRoute s"
  by (simp_all add: emit_def Let_def render_enter_def resolve_props_def
        lastNext_rewrite_def executeRewrite_state_def copyRequest_def createResult_def
        endpoint_leave_def page_leave_def merge_response_cookies_def getCookiesFromResponse_def
        redirect_branch_def
      split: sum.splits prod.splits option.splits payload.splits)

lemma originalRoute_api_step:
  "originalRoute (snd (api_step e m api a s)) = originalRoute s"
  by (cases a)
     (simp_all add: api_step_def set_locals_def originalRoute_locale Let_def
      split: sum.splits prod.splits option.splits)

lemma originalRoute_run:
  "(\<forall>c s res s'. render n e c s = Some (res, s') \<longrightarrow>
      originalRoute s = orig \<longrightarrow> originalRoute s' = orig) \<and>
   (\<forall>m api fr reg acts s res fr' s'.
      exec n e m api fr reg acts s = Some (res, fr', s') \<longrightarrow>
      originalRoute s = orig \<longrightarrow> originalRoute s' = orig) \<and>
   (\<forall>fr pl s res fr' s'.
      lastNext n e fr pl s = Some (res, fr', s') \<longrightarrow>
      originalRoute s = orig \<longrightarrow> originalRoute s' = orig) \<and>
   (\<forall>pl s res s'.
      executeRewrite n e pl s = Some (res, s') \<longrightarrow>
      originalRoute s = orig \<longrightarrow> originalRoute s' = orig)"
  by (rule run_invariant [where Q = "\<lambda>s. originalRoute s = orig"])
     (simp_all add: originalRoute_steps originalRoute_api_step)

text \<open>
  The resolver is read at the anchor only: a run does not change when the resolver
  of the pipeline is replaced by one that agrees with it at the \<^verbatim>\<open>originalRoute\<close> of
  the context, whatever the other one answers at every other anchor.
\<close>

lemma resolver_unused:
  "render_enter (e\<lparr> tryRewrite := t \<rparr>) c s = render_enter e c s"
  "createResult (e\<lparr> tryRewrite := t \<rparr>) c s = createResult e c s"
  "redirect_branch (e\<lparr> tryRewrite := t \<rparr>) fr s = redirect_branch e fr s"
  "computeCurrentLocale (e\<lparr> tryRewrite := t \<rparr>) s = computeCurrentLocale e s"
  "computePreferredLocale (e\<lparr> tryRewrite := t \<rparr>) s = computePreferredLocale e s"
  "computePreferredLocaleList (e\<lparr> tryRewrite := t \<rparr>) s = computePreferredLocaleList e s"
  "clientAddress (e\<lparr> tryRewrite := t \<rparr>) s = clientAddress e s"
  by (simp_all add: render_enter_def resolve_props_def createResult_def redirect_branch_def
        computeCurrentLocale_def computePreferredLocale_def computePreferredLocaleList_def
        clientAddress_def Let_def
      cong: option.case_cong sum.case_cong)

lemma resolver_unused_api_step:
  "api_step (e\<lparr> tryRewrite := t \<rparr>) m api a s = api_step e m api a s"
  by (cases a) (simp_all add: api_step_def resolver_unused)

lemma resolver_at_anchor_steps:
  assumes "\<And>p rq. t p rq (originalRoute s) = tryRewrite e p rq (originalRoute s)"
  shows "lastNext_rewrite (e\<lparr> tryRewrite := t \<rparr>) pl fr s = lastNext_rewrite e pl fr s"
    and "executeRewrite_state (e\<lparr> tryRewrite := t \<rparr>) rp s = executeRewrite_state e rp s"
  by (simp_all add: lastNext_rewrite_def executeRewrite_state_def assms Let_def
      cong: option.case_cong sum.case_cong prod.case_cong)

lemma resolver_at_anchor:
  assumes t: "\<And>p rq. t p rq orig = tryRewrite e p rq orig"
  shows
  "(\<forall>c s. originalRoute s = orig \<longrightarrow>
      render n (e\<lparr> tryRewrite := t \<rparr>) c s = render n e c s) \<and>
   (\<forall>m api fr reg acts s. originalRoute s = orig \<longrightarrow>
      exec n (e\<lparr> tryRewrite := t \<rparr>) m api fr reg acts s = exec n e m api fr reg acts s) \<and>
   (\<forall>fr pl s. originalRoute s = orig \<longrightarrow>
      lastNext n (e\<lparr> tryRewrite := t \<rparr>) fr pl s = lastNext n e fr pl s) \<and>
   (\<forall>pl s. originalRoute s = orig \<longrightarrow>
      executeRewrite n (e\<lparr> tryRewrite := t \<rparr>) pl s = executeRewrite n e pl s)"
proof (induction n)
  case 0
  show ?case by simp
next
  case (Suc n)
  let ?e = "e\<lparr> tryRewrite := t \<rparr>"
  note IHr = Suc [THEN conjunct1, rule_format]
  note IHx = Suc [THEN conjunct2, THEN conjunct1, rule_format]
  note IHl = Suc [THEN conjunct2, THEN conjunct2, THEN conjunct1, rule_format]
  note IHw = Suc [THEN conjunct2, THEN conjunct2, THEN conjunct2, rule_format]
  note keep_x = originalRoute_run [THEN conjunct2, THEN conjunct1, rule_format]
  note keep_l = originalRoute_run [THEN conjunct2, THEN conjunct2, THEN conjunct1, rule_format]
  note keep_w = originalRoute_run [THEN conjunct2, THEN conjunct2, THEN conjunct2, rule_format]
  have R: "render (Suc n) ?e c s = render (Suc n) e c s" if o: "originalRoute s = orig" for c s
  proof (cases "render_enter e c s")
    case (Pair x s1)
    have o1: "originalRoute s1 = orig"
      using originalRoute_steps(1) [of e c s] Pair o by simp
    show ?thesis
    proof (cases x)
      case (Inl r)
      with Pair show ?thesis by (simp add: resolver_unused)
    next
      case (Inr fr)
      let ?s1 = "emit (Ev_callMiddleware (ac_url (fr_api fr))) s1"
      have "exec n ?e InMiddleware (fr_api fr) fr None (middleware e (ac_url (fr_api fr))) ?s1
              = exec n e InMiddleware (fr_api fr) fr None (middleware e (ac_url (fr_api fr))) ?s1"
        by (rule IHx) (simp add: originalRoute_steps o1)
      with Pair Inr show ?thesis by (simp add: resolver_unused)
    qed
  qed
  have W: "executeRewrite (Suc n) ?e pl s = executeRewrite (Suc n) e pl s"
    if o: "originalRoute s = orig" for pl s
  proof (cases "executeRewrite_state e pl s")
    case (Pair x s1)
    have same: "executeRewrite_state ?e pl s = executeRewrite_state e pl s"
      by (rule resolver_at_anchor_steps) (simp add: o t)
    have o1: "originalRoute s1 = orig"
      using originalRoute_steps(4) [of e pl s] Pair o by simp
    show ?thesis
    proof (cases x)
      case (Inl err)
      with Pair same show ?thesis by simp
    next
      case (Inr comp)
      have "render n ?e (Some comp) s1 = render n e (Some comp) s1" by (rule IHr) (rule o1)
      with Pair Inr same show ?thesis by simp
    qed
  qed
  have L: "lastNext (Suc n) ?e fr pl s = lastNext (Suc n) e fr pl s"
    if o: "originalRoute s = orig" for fr pl s
  proof (cases "lastNext_rewrite e pl fr s")
    case (Pair x s1)
    have same: "lastNext_rewrite ?e pl fr s = lastNext_rewrite e pl fr s"
      by (rule resolver_at_anchor_steps) (simp add: o t)
    have o1: "originalRoute s1 = orig"
      using originalRoute_steps(3) [of e pl fr s] Pair o by simp
    show ?thesis
    proof (cases x)
      case (Inl err)
      with Pair same show ?thesis by simp
    next
      case (Inr fr1)
      have ep: "exec n ?e InEndpoint (fr_api fr1) fr1 None acts (emit Ev_renderEndpoint s1)
                  = exec n e InEndpoint (fr_api fr1) fr1 None acts (emit Ev_renderEndpoint s1)"
        for acts
        by (rule IHx) (simp add: originalRoute_steps o1)
      have pg: "exec n ?e InPage api fr1 None acts (emit (Ev_renderPage rid) s2)
                  = exec n e InPage api fr1 None acts (emit (Ev_renderPage rid) s2)"
        if "createResult e (fr_component fr1) s1 = (y, s2)" for api acts rid y s2
      proof (rule IHx)
        from that originalRoute_steps(5) [of e "fr_component fr1" s1] o1
        show "originalRoute (emit (Ev_renderPage rid) s2) = orig"
          by (simp add: originalRoute_steps)
      qed
      show ?thesis
        using Pair Inr same
        by (simp add: resolver_unused ep pg
                 split: route_type.splits option.splits prod.splits sum.splits)
    qed
  qed
  have X: "exec (Suc n) ?e m api fr reg acts s = exec (Suc n) e m api fr reg acts s"
    if o: "originalRoute s = orig" for m api fr reg acts s
  proof (cases acts)
    case Nil
    then show ?thesis by simp
  next
    case (Cons act rest)
    let ?step = "\<lambda>e0. case act of
                   Act_next pl \<Rightarrow>
                     (if m \<noteq> InMiddleware then Some (Inl (TypeError ''next''), fr, s)
                      else (case lastNext n e0 fr pl s of
                              None \<Rightarrow> None
                            | Some out \<Rightarrow> Some (next_result out)))
                 | Act_rewrite pl \<Rightarrow>
                     (case executeRewrite n e0 pl s of
                        None \<Rightarrow> None
                      | Some out \<Rightarrow> Some (rewrite_result fr out))
                 | Act c \<Rightarrow> Some (call_result fr (api_step e0 m api c s))"
    have first: "?step ?e = ?step e"
      by (cases act) (simp_all add: IHl [OF o] IHw [OF o] resolver_unused_api_step)
    have after: "originalRoute s1 = orig" if st: "?step e = Some (r1, fr1, s1)" for r1 fr1 s1
    proof (cases act)
      case (Act_next pl)
      show ?thesis
      proof (cases "m \<noteq> InMiddleware")
        case True
        with st Act_next o show ?thesis by simp
      next
        case False
        with st Act_next obtain out where
          run: "lastNext n e fr pl s = Some out" and r: "next_result out = (r1, fr1, s1)"
          by (auto split: option.splits)
        obtain r0 fr0 s0 where out: "out = (r0, fr0, s0)" by (cases out)
        have "originalRoute s0 = orig" by (rule keep_l [OF run [unfolded out] o])
        with r out show ?thesis by (cases r0) (simp_all add: next_result_def)
      qed
    next
      case (Act_rewrite pl)
      with st obtain out where
        run: "executeRewrite n e pl s = Some out" and r: "rewrite_result fr out = (r1, fr1, s1)"
        by (auto split: option.splits)
      obtain r0 s0 where out: "out = (r0, s0)" by (cases out)
      have "originalRoute s0 = orig" by (rule keep_w [OF run [unfolded out] o])
      with r out show ?thesis by (cases r0) (simp_all add: rewrite_result_def)
    next
      case (Act c)
      with st have "s1 = snd (api_step e m api c s)"
        by (cases "api_step e m api c s") (simp add: call_result_def)
      with o show ?thesis by (simp add: originalRoute_api_step)
    qed
    have unfold: "exec (Suc n) e0 m api fr reg acts s =
                    (case ?step e0 of
                       None \<Rightarrow> None
                     | Some (Inl err, fr', s') \<Rightarrow> Some (Inl err, fr', s')
                     | Some (Inr r, fr', s') \<Rightarrow> exec n e0 m api fr' (new_reg reg r) rest s')"
      for e0
      by (simp add: Cons)
    show ?thesis
    proof (cases "?step e")
      case None
      with first show ?thesis by (simp only: unfold) simp
    next
      case (Some out)
      obtain r1 fr1 s1 where out: "out = (r1, fr1, s1)" by (cases out)
      have o1: "originalRoute s1 = orig" by (rule after) (simp add: Some out)
      have cont: "exec n ?e m api fr1 reg' rest s1 = exec n e m api fr1 reg' rest s1" for reg'
        by (rule IHx) (rule o1)
      from Some out first have "?step ?e = Some (r1, fr1, s1)" by simp
      with Some out cont show ?thesis by (simp only: unfold) (cases r1; simp)
    qed
  qed
  show ?case
    by (intro conjI allI impI) (erule R X L W)+
qed

text \<open>
  C3. The constructor assigns \<^verbatim>\<open>originalRoute\<close> from the route the context is created
  with. Both rewrite entry points call the resolver with \<^verbatim>\<open>this.originalRoute\<close> as
  its third argument and do not assign the field: what they do with the context is
  what the resolver answers at \<^verbatim>\<open>originalRoute\<close> (its route becomes \<^verbatim>\<open>routeData\<close>, its
  error is thrown), and the call is recorded with that argument. A run of \<^verbatim>\<open>render\<close>,
  \<^verbatim>\<open>lastNext\<close> or \<^verbatim>\<open>#executeRewrite\<close> reads the resolver at the \<^verbatim>\<open>originalRoute\<close> of
  the context only: replacing the resolver by any other that agrees with it there
  changes nothing, whatever the user code does and however many rewrites occur. In
  every run that returns (with a response or an error), \<^verbatim>\<open>originalRoute\<close> is at the
  end what it was at the start, and every call of the resolver was given it; for a
  run on a new context, that is the route first matched.
\<close>

theorem originalRoute_is_the_anchor:
  "originalRoute (create e lcls pn rq rd st prps) = rd \<and>
   anchored rd (create e lcls pn rq rd st prps) \<and>
   (payload_given pl = Some p \<longrightarrow>
      trace (snd (lastNext_rewrite e pl fr s))
        = trace s @ [Ev_tryRewrite p (req_store s (request s)) (originalRoute s)]) \<and>
   trace (snd (executeRewrite_state e rp s))
     = trace s @ [Ev_tryRewrite rp (req_store s (request s)) (originalRoute s)] \<and>
   (anchored orig s \<longrightarrow> render n e c s = Some (res, s') \<longrightarrow> anchored orig s') \<and>
   (anchored orig s \<longrightarrow> lastNext n e fr pl s = Some (lres, fr', s') \<longrightarrow> anchored orig s') \<and>
   (anchored orig s \<longrightarrow> executeRewrite n e rp s = Some (res, s') \<longrightarrow> anchored orig s') \<and>
   (payload_given pl = Some p \<longrightarrow>
      (\<forall>found. tryRewrite e p (req_store s (request s)) (originalRoute s) = Inr found \<longrightarrow>
         fst (lastNext_rewrite e pl fr s) = Inr (fr\<lparr> fr_component := Some (fst (snd found)) \<rparr>) \<and>
         routeData (snd (lastNext_rewrite e pl fr s)) = fst found) \<and>
      (\<forall>msg. tryRewrite e p (req_store s (request s)) (originalRoute s) = Inl msg \<longrightarrow>
         fst (lastNext_rewrite e pl fr s) = Inl (External msg))) \<and>
   (\<forall>found. tryRewrite e rp (req_store s (request s)) (originalRoute s) = Inr found \<longrightarrow>
      routeData (snd (executeRewrite_state e rp s)) = fst found \<and>
      (fst (executeRewrite_state e rp s) = Inr (fst (snd found)) \<or>
       fst (executeRewrite_state e rp s) = Inl RewriteWithBodyUsed)) \<and>
   (\<forall>msg. tryRewrite e rp (req_store s (request s)) (originalRoute s) = Inl msg \<longrightarrow>
      fst (executeRewrite_state e rp s) = Inl (External msg)) \<and>
   originalRoute (snd (lastNext_rewrite e pl fr s)) = originalRoute s \<and>
   originalRoute (snd (executeRewrite_state e rp s)) = originalRoute s \<and>
   ((\<forall>p rq. t p rq (originalRoute s) = tryRewrite e p rq (originalRoute s)) \<longrightarrow>
      render n (e\<lparr> tryRewrite := t \<rparr>) c s = render n e c s \<and>
      lastNext n (e\<lparr> tryRewrite := t \<rparr>) fr pl s = lastNext n e fr pl s \<and>
      executeRewrite n (e\<lparr> tryRewrite := t \<rparr>) rp s = executeRewrite n e rp s)"
proof (intro conjI impI allI)
  show "originalRoute (create e lcls pn rq rd st prps) = rd"
    by (simp add: create_def)
  show "anchored rd (create e lcls pn rq rd st prps)"
    by (simp add: create_def anchored_def)
  show "trace (snd (lastNext_rewrite e pl fr s))
          = trace s @ [Ev_tryRewrite p (req_store s (request s)) (originalRoute s)]"
    if "payload_given pl = Some p"
    using that by (simp add: lastNext_rewrite_def emit_def Let_def split: sum.splits)
  show "trace (snd (executeRewrite_state e rp s))
          = trace s @ [Ev_tryRewrite rp (req_store s (request s)) (originalRoute s)]"
    by (simp add: executeRewrite_state_def emit_def Let_def copyRequest_def
             split: sum.splits payload.splits)
  show "anchored orig s'" if "anchored orig s" and "render n e c s = Some (res, s')"
    by (rule anchored_render [OF that(2) that(1)])
  show "anchored orig s'" if "anchored orig s" and "lastNext n e fr pl s = Some (lres, fr', s')"
    by (rule anchored_lastNext [OF that(2) that(1)])
  show "anchored orig s'" if "anchored orig s" and "executeRewrite n e rp s = Some (res, s')"
    by (rule anchored_executeRewrite [OF that(2) that(1)])
  show "fst (lastNext_rewrite e pl fr s) = Inr (fr\<lparr> fr_component := Some (fst (snd found)) \<rparr>)"
    if "payload_given pl = Some p"
      and "tryRewrite e p (req_store s (request s)) (originalRoute s) = Inr found" for found
    using that by (cases found) (simp add: lastNext_rewrite_def Let_def)
  show "routeData (snd (lastNext_rewrite e pl fr s)) = fst found"
    if "payload_given pl = Some p"
      and "tryRewrite e p (req_store s (request s)) (originalRoute s) = Inr found" for found
    using that by (cases found) (simp add: lastNext_rewrite_def Let_def)
  show "fst (lastNext_rewrite e pl fr s) = Inl (External msg)"
    if "payload_given pl = Some p"
      and "tryRewrite e p (req_store s (request s)) (originalRoute s) = Inl msg" for msg
    using that by (simp add: lastNext_rewrite_def Let_def)
  show "routeData (snd (executeRewrite_state e rp s)) = fst found"
    if "tryRewrite e rp (req_store s (request s)) (originalRoute s) = Inr found" for found
    using that
    by (cases found)
       (simp add: executeRewrite_state_def emit_def Let_def copyRequest_def
             split: sum.splits payload.splits)
  show "fst (executeRewrite_state e rp s) = Inr (fst (snd found)) \<or>
        fst (executeRewrite_state e rp s) = Inl RewriteWithBodyUsed"
    if "tryRewrite e rp (req_store s (request s)) (originalRoute s) = Inr found" for found
    using that
    by (cases found)
       (simp add: executeRewrite_state_def emit_def Let_def copyRequest_def
             split: sum.splits payload.splits)
  show "fst (executeRewrite_state e rp s) = Inl (External msg)"
    if "tryRewrite e rp (req_store s (request s)) (originalRoute s) = Inl msg" for msg
    using that by (simp add: executeRewrite_state_def Let_def)
  show "originalRoute (snd (lastNext_rewrite e pl fr s)) = originalRoute s"
    by (rule originalRoute_steps)
  show "originalRoute (snd (executeRewrite_state e rp s)) = originalRoute s"
    by (rule originalRoute_steps)
next
  assume a: "\<forall>p rq. t p rq (originalRoute s) = tryRewrite e p rq (originalRoute s)"
  note ext = resolver_at_anchor [where t = t and orig = "originalRoute s" and e = e and n = n,
                                 OF a [rule_format]]
  show "render n (e\<lparr> tryRewrite := t \<rparr>) c s = render n e c s"
    by (rule ext [THEN conjunct1, rule_format, OF refl])
  show "lastNext n (e\<lparr> tryRewrite := t \<rparr>) fr pl s = lastNext n e fr pl s"
    by (rule ext [THEN conjunct2, THEN conjunct2, THEN conjunct1, rule_format, OF refl])
  show "executeRewrite n (e\<lparr> tryRewrite := t \<rparr>) rp s = executeRewrite n e rp s"
    by (rule ext [THEN conjunct2, THEN conjunct2, THEN conjunct2, rule_format, OF refl])
qed

theorem originalRoute_is_the_anchor_witness:
  "(\<exists>res s'.
      render 10 demo_rewriting_env (Some demo_page)
        (create demo_rewriting_env (JObj []) ''/a'' demo_request demo_route 200 [])
        = Some (res, s') \<and>
      render 10 (demo_rewriting_env\<lparr> tryRewrite := demo_anchor_resolver \<rparr>) (Some demo_page)
        (create demo_rewriting_env (JObj []) ''/a'' demo_request demo_route 200 [])
        = Some (res, s') \<and>
      routeData s' = demo_route_b \<and>
      length (filter is_tryRewrite (trace s')) = 2 \<and>
      anchored demo_route s') \<and>
   (\<exists>res fr' s'.
      lastNext 9 demo_rewriting_env (demo_frame demo_page demo_state)
        (Some (PayloadString ''/c'')) demo_state = Some (res, fr', s') \<and>
      length (filter is_tryRewrite (trace s')) = 1 \<and>
      anchored demo_route s') \<and>
   (\<exists>res s'.
      executeRewrite 9 demo_rewriting_env (PayloadString ''/b'') demo_state = Some (res, s') \<and>
      length (filter is_tryRewrite (trace s')) = 2 \<and>
      anchored demo_route s') \<and>
   trace (snd (lastNext_rewrite demo_env (Some (PayloadString ''/c''))
                 (demo_frame demo_page demo_state) demo_state))
     = [Ev_tryRewrite (PayloadString ''/c'') demo_request demo_route] \<and>
   routeData (snd (lastNext_rewrite demo_env (Some (PayloadString ''/c''))
                     (demo_frame demo_page demo_state) demo_state)) = demo_route_b \<and>
   routeData (snd (executeRewrite_state demo_env (PayloadString ''/b'') demo_state))
     = demo_route_b \<and>
   fst (lastNext_rewrite (demo_env\<lparr> tryRewrite := demo_anchor_resolver \<rparr>)
          (Some (PayloadString ''/c'')) (demo_frame demo_page demo_state)
          (create demo_env (JObj []) ''/b'' demo_request demo_route_b 200 []))
     = Inl (External ''escaped'') \<and>
   fst (executeRewrite_state (demo_env\<lparr> tryRewrite := demo_anchor_resolver \<rparr>)
          (PayloadString ''/c'')
          (create demo_env (JObj []) ''/b'' demo_request demo_route_b 200 []))
     = Inl (External ''escaped'')"
proof -
  let ?s = "create demo_rewriting_env (JObj []) ''/a'' demo_request demo_route 200 []"
  let ?fr = "demo_frame demo_page demo_state"
  have a0: "anchored demo_route ?s" "anchored demo_route demo_state"
    by (simp_all add: create_def anchored_def demo_state_def)
  have "map_option (\<lambda>(r, s'). (routeData s', length (filter is_tryRewrite (trace s'))))
          (render 10 demo_rewriting_env (Some demo_page) ?s)
        = Some (demo_route_b, 2)"
    by code_simp
  then obtain res s' where
    run: "render 10 demo_rewriting_env (Some demo_page) ?s = Some (res, s')"
    and obs: "routeData s' = demo_route_b" "length (filter is_tryRewrite (trace s')) = 2"
    by (cases "render 10 demo_rewriting_env (Some demo_page) ?s") auto
  have "anchored demo_route s'"
    by (rule originalRoute_is_the_anchor
               [where e = demo_rewriting_env and orig = demo_route and s = ?s and n = 10
                  and c = "Some demo_page" and res = res and s' = s',
                THEN conjunct2, THEN conjunct2, THEN conjunct2, THEN conjunct2,
                THEN conjunct1, rule_format, OF a0(1) run])
  moreover
  have agree: "\<And>p rq. demo_anchor_resolver p rq (originalRoute ?s)
                 = tryRewrite demo_rewriting_env p rq (originalRoute ?s)"
    by (simp add: demo_anchor_resolver_def create_def demo_rewriting_env_def demo_env_def)
  have "render 10 (demo_rewriting_env\<lparr> tryRewrite := demo_anchor_resolver \<rparr>) (Some demo_page) ?s
          = render 10 demo_rewriting_env (Some demo_page) ?s"
    by (rule originalRoute_is_the_anchor
               [where e = demo_rewriting_env and s = ?s and n = 10 and c = "Some demo_page"
                  and t = demo_anchor_resolver,
                THEN conjunct2, THEN conjunct2, THEN conjunct2, THEN conjunct2,
                THEN conjunct2, THEN conjunct2, THEN conjunct2, THEN conjunct2,
                THEN conjunct2, THEN conjunct2, THEN conjunct2, THEN conjunct2,
                rule_format, OF agree, THEN conjunct1])
  ultimately have 1:
    "\<exists>res s'. render 10 demo_rewriting_env (Some demo_page) ?s = Some (res, s') \<and>
        render 10 (demo_rewriting_env\<lparr> tryRewrite := demo_anchor_resolver \<rparr>) (Some demo_page) ?s
          = Some (res, s') \<and>
        routeData s' = demo_route_b \<and> length (filter is_tryRewrite (trace s')) = 2 \<and>
        anchored demo_route s'"
    using run obs by simp
  have "map_option (\<lambda>(r, fr', s'). length (filter is_tryRewrite (trace s')))
          (lastNext 9 demo_rewriting_env ?fr (Some (PayloadString ''/c'')) demo_state)
        = Some 1"
    by code_simp
  then obtain lres fr' s2 where
    lrun: "lastNext 9 demo_rewriting_env ?fr (Some (PayloadString ''/c'')) demo_state
             = Some (lres, fr', s2)"
    and lobs: "length (filter is_tryRewrite (trace s2)) = 1"
    by (cases "lastNext 9 demo_rewriting_env ?fr (Some (PayloadString ''/c'')) demo_state") auto
  have "anchored demo_route s2"
    by (rule originalRoute_is_the_anchor
               [where e = demo_rewriting_env and orig = demo_route and s = demo_state and n = 9
                  and fr = ?fr and pl = "Some (PayloadString ''/c'')" and lres = lres
                  and fr' = fr' and s' = s2,
                THEN conjunct2, THEN conjunct2, THEN conjunct2, THEN conjunct2,
                THEN conjunct2, THEN conjunct1, rule_format, OF a0(2) lrun])
  with lrun lobs have 2:
    "\<exists>res fr' s'. lastNext 9 demo_rewriting_env ?fr (Some (PayloadString ''/c'')) demo_state
         = Some (res, fr', s') \<and>
        length (filter is_tryRewrite (trace s')) = 1 \<and> anchored demo_route s'"
    by blast
  have "map_option (\<lambda>(r, s'). length (filter is_tryRewrite (trace s')))
          (executeRewrite 9 demo_rewriting_env (PayloadString ''/b'') demo_state)
        = Some 2"
    by code_simp
  then obtain wres s3 where
    wrun: "executeRewrite 9 demo_rewriting_env (PayloadString ''/b'') demo_state
             = Some (wres, s3)"
    and wobs: "length (filter is_tryRewrite (trace s3)) = 2"
    by (cases "executeRewrite 9 demo_rewriting_env (PayloadString ''/b'') demo_state") auto
  have "anchored demo_route s3"
    by (rule originalRoute_is_the_anchor
               [where e = demo_rewriting_env and orig = demo_route and s = demo_state and n = 9
                  and rp = "PayloadString ''/b''" and res = wres and s' = s3,
                THEN conjunct2, THEN conjunct2, THEN conjunct2, THEN conjunct2,
                THEN conjunct2, THEN conjunct2, THEN conjunct1, rule_format, OF a0(2) wrun])
  with wrun wobs have 3:
    "\<exists>res s'. executeRewrite 9 demo_rewriting_env (PayloadString ''/b'') demo_state
         = Some (res, s') \<and>
        length (filter is_tryRewrite (trace s')) = 2 \<and> anchored demo_route s'"
    by blast
  have pg: "payload_given (Some (PayloadString ''/c'')) = Some (PayloadString ''/c'')"
    by (simp add: payload_given_def)
  have "trace (snd (lastNext_rewrite demo_env (Some (PayloadString ''/c'')) ?fr demo_state))
          = trace demo_state
            @ [Ev_tryRewrite (PayloadString ''/c'') (req_store demo_state (request demo_state))
                 (originalRoute demo_state)]"
    by (rule originalRoute_is_the_anchor
               [where e = demo_env and s = demo_state and fr = ?fr
                  and pl = "Some (PayloadString ''/c'')" and p = "PayloadString ''/c''",
                THEN conjunct2, THEN conjunct2, THEN conjunct1, rule_format, OF pg])
  then have 4:
    "trace (snd (lastNext_rewrite demo_env (Some (PayloadString ''/c'')) ?fr demo_state))
       = [Ev_tryRewrite (PayloadString ''/c'') demo_request demo_route]"
    by (simp add: demo_state_def create_def)
  have found: "tryRewrite demo_env (PayloadString ''/c'')
                 (req_store demo_state (request demo_state)) (originalRoute demo_state)
               = Inr (demo_route_b, demo_page, demo_url_b)"
    by (simp add: demo_env_def)
  have 5: "routeData (snd (lastNext_rewrite demo_env (Some (PayloadString ''/c'')) ?fr demo_state))
             = demo_route_b"
    using originalRoute_is_the_anchor
               [where e = demo_env and s = demo_state and fr = ?fr
                  and pl = "Some (PayloadString ''/c'')" and p = "PayloadString ''/c''",
                THEN conjunct2, THEN conjunct2, THEN conjunct2, THEN conjunct2,
                THEN conjunct2, THEN conjunct2, THEN conjunct2, THEN conjunct1,
                rule_format, OF pg, THEN conjunct1, rule_format, OF found]
    by simp
  have found_b: "tryRewrite demo_env (PayloadString ''/b'')
                   (req_store demo_state (request demo_state)) (originalRoute demo_state)
                 = Inr (demo_route_b, demo_page, demo_url_b)"
    by (simp add: demo_env_def)
  have 6: "routeData (snd (executeRewrite_state demo_env (PayloadString ''/b'') demo_state))
             = demo_route_b"
    using originalRoute_is_the_anchor
               [where e = demo_env and s = demo_state and rp = "PayloadString ''/b''",
                THEN conjunct2, THEN conjunct2, THEN conjunct2, THEN conjunct2,
                THEN conjunct2, THEN conjunct2, THEN conjunct2, THEN conjunct2, THEN conjunct1,
                rule_format, OF found_b, THEN conjunct1]
    by simp
  let ?e' = "demo_env\<lparr> tryRewrite := demo_anchor_resolver \<rparr>"
  let ?sb = "create demo_env (JObj []) ''/b'' demo_request demo_route_b 200 []"
  have escaped: "tryRewrite ?e' (PayloadString ''/c'') (req_store ?sb (request ?sb))
                   (originalRoute ?sb) = Inl ''escaped''"
    by (simp add: demo_anchor_resolver_def create_def demo_route_def demo_route_b_def)
  have 7: "fst (lastNext_rewrite ?e' (Some (PayloadString ''/c'')) ?fr ?sb)
             = Inl (External ''escaped'')"
    by (rule originalRoute_is_the_anchor
               [where e = ?e' and s = ?sb and fr = ?fr
                  and pl = "Some (PayloadString ''/c'')" and p = "PayloadString ''/c''",
                THEN conjunct2, THEN conjunct2, THEN conjunct2, THEN conjunct2,
                THEN conjunct2, THEN conjunct2, THEN conjunct2, THEN conjunct1,
                rule_format, OF pg, THEN conjunct2, rule_format, OF escaped])
  have 8: "fst (executeRewrite_state ?e' (PayloadString ''/c'') ?sb)
             = Inl (External ''escaped'')"
    by (rule originalRoute_is_the_anchor
               [where e = ?e' and s = ?sb and rp = "PayloadString ''/c''",
                THEN conjunct2, THEN conjunct2, THEN conjunct2, THEN conjunct2,
                THEN conjunct2, THEN conjunct2, THEN conjunct2, THEN conjunct2,
                THEN conjunct2, THEN conjunct1, rule_format, OF escaped])
  from 1 2 3 4 5 6 7 8 show ?thesis by (intro conjI)
qed

subsection \<open>The loop counter\<close>












text \<open>
  The guard compares the counter with 4 once. A middleware that rewrites through the
  context four times in succession, from one call of \<^verbatim>\<open>render\<close>, gets the fixed
  response from its third rewrite and the page from its fourth: the request ends
  with status 200 and the counter at 5.
\<close>

lemma sequential_rewrites_pass_the_guard:
  "map_option
     (\<lambda>(r, s'). (map_sum id (\<lambda>r. (resp_status r, resp_body r)) r, counter s',
                 length (filter is_tryRewrite (trace s'))))
     (render 12 demo_sequential_env (Some demo_page) demo_state)
   = Some (Inr (200, Some ''<html>''), 5, 4)"
  by code_simp




subsection \<open>Cookies across a nested rewrite\<close>



text \<open>
  What a request does whose middleware rewrites through the context at \<^verbatim>\<open>/a\<close> and
  returns the response, when the middleware sets a cookie in the rewritten scope:
  the response leaves with the jar read by the outer call of \<^verbatim>\<open>render\<close>, which is
  empty; the cookie is in the jar of the rewritten scope only. (\<^verbatim>\<open>lastNext\<close>, which
  merges, does not run in the outer call.)
\<close>

lemma cookies_of_middleware_rewrite:
  "map_option
     (\<lambda>(r, s'). (map_sum id (\<lambda>r. (resp_cookies r, set_cookie_headers s' r)) r,
                 jar_store s' 1))
     (render 10 demo_cookie_env (Some demo_page) demo_state)
   = Some (Inr (Some 0, []), [(''session'', ''inner'')])"
  by code_simp






















end
